theory Spec2Isabelle
  imports Main "HOL-Library.AList" "HOL-Library.Sublist"
begin

section \<open>Data model (task-router/src/types.ts)\<close>

text \<open>
  Wall-clock instants (\<^verbatim>\<open>new Date()\<close>, \<^verbatim>\<open>Date.now()\<close>) are milliseconds since the
  epoch, an \<^typ>\<open>int\<close> handed to every operation that reads the clock.
\<close>

datatype job_state = Queued | In_Progress | Completed | Failed

datatype event_status = Success | Failure | Error | Progress

record CompletionEvent =
  job_id :: string
  task_type :: string
  ev_status :: event_status
  ev_error :: "string option"

record JobStatus =
  jobId :: string
  status :: job_state
  completedTasks :: "string list"
  startedAt :: int
  completedAt :: "int option"
  error :: "string option"

record JobSpec =
  product :: "string option"
  audience :: "string option"
  tone :: "string option"
  spec_job_id :: "string option"

text \<open>JSON documents, as far as the router builds and stores them.\<close>

datatype json = JString string | JArray "json list" | JObject "(string \<times> json) list"

text \<open>Everything the router code throws.\<close>

datatype err =
    JobNotFound string
  | NoSuchKey string
  | UnknownTaskType string
  | S3Unavailable
  | SQSUnavailable
  | SyntaxError

section \<open>JobStateManager (task-router/src/services/job-state.ts)\<close>

text \<open>
  The manager's \<^verbatim>\<open>Map<string, JobStatus>\<close> is an association list in insertion order:
  \<^const>\<open>AList.update\<close> replaces the value of a present key in place and appends an absent
  one, as \<^verbatim>\<open>Map.set\<close> does; \<^const>\<open>map_of\<close> is \<^verbatim>\<open>Map.get\<close>. The job objects are
  mutated through the reference the map holds, so every field assignment is an update of
  the entry under the same key.
\<close>

type_synonym job_index = "(string \<times> JobStatus) list"

definition createJob :: "string \<Rightarrow> int \<Rightarrow> job_index \<Rightarrow> job_index" where
  "createJob jid now js =
     AList.update jid
       \<lparr>jobId = jid, status = Queued, completedTasks = [], startedAt = now,
        completedAt = None, error = None\<rparr> js"

definition startJob :: "string \<Rightarrow> job_index \<Rightarrow> err + job_index" where
  "startJob jid js =
     (case map_of js jid of
        None \<Rightarrow> Inl (JobNotFound jid)
      | Some job \<Rightarrow> Inr (AList.update jid (job\<lparr>status := In_Progress\<rparr>) js))"

definition requiredTasks :: "string list" where
  "requiredTasks = [''research'', ''product_manager'', ''drawer'', ''designer'', ''coder'']"

definition allTasksComplete :: "JobStatus \<Rightarrow> bool" where
  "allTasksComplete job = list_all (\<lambda>task. task \<in> set (completedTasks job)) requiredTasks"

definition addTask :: "string \<Rightarrow> JobStatus \<Rightarrow> JobStatus" where
  "addTask t job =
     (if t \<notin> set (completedTasks job)
      then job\<lparr>completedTasks := completedTasks job @ [t]\<rparr> else job)"

text \<open>\<^verbatim>\<open>completeTask\<close> returns its boolean together with the index after the mutation.\<close>

definition completeTask :: "CompletionEvent \<Rightarrow> int \<Rightarrow> job_index \<Rightarrow> bool \<times> job_index" where
  "completeTask event now js =
     (case map_of js (job_id event) of
        None \<Rightarrow> (False, js)
      | Some job \<Rightarrow>
          if ev_status event = Progress then (False, js)
          else if ev_status event = Failure \<or> ev_status event = Error then
            (True, AList.update (job_id event)
                     (job\<lparr>status := Failed, error := ev_error event, completedAt := Some now\<rparr>) js)
          else
            (let job1 = addTask (task_type event) job in
             if allTasksComplete job1
             then (True, AList.update (job_id event)
                           (job1\<lparr>status := Completed, completedAt := Some now\<rparr>) js)
             else (False, AList.update (job_id event) job1 js)))"

definition getJob :: "string \<Rightarrow> job_index \<Rightarrow> JobStatus option" where
  "getJob jid js = map_of js jid"

definition is_terminal :: "JobStatus \<Rightarrow> bool" where
  "is_terminal job = (status job = Completed \<or> status job = Failed)"

text \<open>
  \<^verbatim>\<open>cleanup\<close>: the first loop collects the ids to delete, the second deletes them.
  The default argument is \<^verbatim>\<open>24 * 60 * 60 * 1000\<close>.
\<close>

definition jobsToDelete :: "int \<Rightarrow> int \<Rightarrow> job_index \<Rightarrow> string list" where
  "jobsToDelete maxAge now js =
     map fst (filter (\<lambda>(jid, job). now - startedAt job > maxAge \<and> is_terminal job) js)"

definition cleanup :: "int \<Rightarrow> int \<Rightarrow> job_index \<Rightarrow> job_index" where
  "cleanup maxAge now js = fold AList.delete (jobsToDelete maxAge now js) js"

definition default_maxAge :: int where
  "default_maxAge = 24 * 60 * 60 * 1000"

record Stats =
  total :: nat
  queued :: nat
  in_progress :: nat
  completed :: nat
  failed :: nat

definition count_status :: "job_state \<Rightarrow> job_index \<Rightarrow> nat" where
  "count_status st js = length (filter (\<lambda>(jid, job). status job = st) js)"

definition getStats :: "job_index \<Rightarrow> Stats" where
  "getStats js =
     \<lparr>total = length js, queued = count_status Queued js,
      in_progress = count_status In_Progress js, completed = count_status Completed js,
      failed = count_status Failed js\<rparr>"

definition getAllJobs :: "job_index \<Rightarrow> JobStatus list" where
  "getAllJobs js = map snd js"

section \<open>The world the router acts on\<close>

text \<open>
  The S3 artifact bucket is a map from keys to JSON documents. Each stage queue is the
  list of task messages sent to it; the five queue URLs of the configuration are taken
  to be distinct, so a queue is named by a constructor. The events queue holds message
  bodies: a body is either text on which \<^verbatim>\<open>JSON.parse\<close> throws, or a JSON object, which
  is a worker's completion event or the router's own \<^verbatim>\<open>job_completed\<close> announcement
  (\<^verbatim>\<open>publishDone\<close> sends it to the same queue). Transport to S3 and to SQS is
  modelled by two availability flags: while a flag is off, every call to that service
  throws. Handlers run one at a time, each to its end: the interleaving of a request
  with an event at an \<^verbatim>\<open>await\<close> is outside the model, and so are the log and the
  metrics counters.
\<close>

datatype queue = ResearchQ | DesignerQ | DrawerQ | ProductManagerQ | CoderQ

datatype task_message = TaskMessage string string string int
  \<comment> \<open>\<^verbatim>\<open>job_id\<close>, \<^verbatim>\<open>task_type\<close>, \<^verbatim>\<open>payload_key\<close>, \<^verbatim>\<open>timestamp\<close>; \<^verbatim>\<open>source\<close> is constant\<close>

datatype event_json =
    CompletionJson CompletionEvent
  | JobCompletedJson string int
  \<comment> \<open>\<^verbatim>\<open>jobId\<close>, \<^verbatim>\<open>timestamp\<close>; \<^verbatim>\<open>event_type: 'job_completed'\<close>\<close>

datatype events_body = Unparseable string | Parseable event_json

record world =
  jobs :: job_index
  bucket :: "string \<Rightarrow> json option"
  task_queues :: "queue \<Rightarrow> task_message list"
  events_queue :: "events_body list"
  s3_up :: bool
  sqs_up :: bool

text \<open>
  An operation that can throw after it has already changed the world returns the error,
  if any, together with the world it leaves behind.
\<close>

type_synonym outcome = "err option \<times> world"

section \<open>S3Storage (task-router/src/services/storage.ts)\<close>

text \<open>
  \<^verbatim>\<open>get\<close> throws for an absent key (and for an object without body); the objects of the
  bucket are JSON documents, so its \<^verbatim>\<open>JSON.parse\<close> succeeds.
\<close>

definition store :: "string \<Rightarrow> json \<Rightarrow> world \<Rightarrow> outcome" where
  "store key data w =
     (if s3_up w then (None, w\<lparr>bucket := (bucket w)(key \<mapsto> data)\<rparr>)
      else (Some S3Unavailable, w))"

definition get :: "string \<Rightarrow> world \<Rightarrow> err + json" where
  "get key w =
     (if s3_up w then
        (case bucket w key of None \<Rightarrow> Inl (NoSuchKey key) | Some data \<Rightarrow> Inr data)
      else Inl S3Unavailable)"

definition payload_key :: "string \<Rightarrow> string \<Rightarrow> string" where
  "payload_key jid task = jid @ ''/'' @ task @ ''.json''"

definition storePayload :: "string \<Rightarrow> string \<Rightarrow> json \<Rightarrow> world \<Rightarrow> outcome" where
  "storePayload jid task payload w = store (payload_key jid task) payload w"

section \<open>SQSMessaging (task-router/src/services/messaging.ts)\<close>

definition getQueueUrl :: "string \<Rightarrow> err + queue" where
  "getQueueUrl task =
     (if task = ''research'' then Inr ResearchQ
      else if task = ''designer'' then Inr DesignerQ
      else if task = ''drawer'' then Inr DrawerQ
      else if task = ''product_manager'' then Inr ProductManagerQ
      else if task = ''coder'' then Inr CoderQ
      else Inl (UnknownTaskType task))"

definition sendMessage :: "queue \<Rightarrow> task_message \<Rightarrow> world \<Rightarrow> outcome" where
  "sendMessage q m w =
     (if sqs_up w then (None, w\<lparr>task_queues := (task_queues w)(q := task_queues w q @ [m])\<rparr>)
      else (Some SQSUnavailable, w))"

text \<open>The payload goes to S3 first, then the queue is chosen, then the message is sent.\<close>

definition sendTaskMessage :: "string \<Rightarrow> string \<Rightarrow> json \<Rightarrow> int \<Rightarrow> world \<Rightarrow> outcome" where
  "sendTaskMessage jid task payload now w =
     (case storePayload jid task payload w of
        (Some e, w1) \<Rightarrow> (Some e, w1)
      | (None, w1) \<Rightarrow>
          (case getQueueUrl task of
             Inl e \<Rightarrow> (Some e, w1)
           | Inr q \<Rightarrow> sendMessage q (TaskMessage jid task (payload_key jid task) now) w1))"

definition publishDone :: "string \<Rightarrow> int \<Rightarrow> world \<Rightarrow> outcome" where
  "publishDone jid now w =
     (if sqs_up w
      then (None, w\<lparr>events_queue := events_queue w @ [Parseable (JobCompletedJson jid now)]\<rparr>)
      else (Some SQSUnavailable, w))"

section \<open>TaskRouter (the graph module in task-router/src/index.ts)\<close>

definition stage_payload :: "string \<Rightarrow> json \<Rightarrow> string \<Rightarrow> string list \<Rightarrow> json" where
  "stage_payload field input task instructions =
     JObject [(field, input), (''task'', JString task),
              (''instructions'', JArray (map JString instructions))]"

definition opt_field :: "string \<Rightarrow> string option \<Rightarrow> (string \<times> json) list" where
  "opt_field name v = (case v of None \<Rightarrow> [] | Some x \<Rightarrow> [(name, JString x)])"

definition researchPayload :: "JobSpec \<Rightarrow> json" where
  "researchPayload input =
     JObject (opt_field ''product'' (product input) @ opt_field ''audience'' (audience input) @
              opt_field ''tone'' (tone input) @
              [(''task'', JString ''research''),
               (''instructions'', JArray (map JString
                  [''Analyze the target audience and their pain points'',
                   ''Research competitors and their messaging strategies'',
                   ''Identify key value propositions for the product'',
                   ''Generate insights for content creation'']))])"

definition executeResearchTask :: "string \<Rightarrow> JobSpec \<Rightarrow> int \<Rightarrow> world \<Rightarrow> outcome" where
  "executeResearchTask jid input now w =
     sendTaskMessage jid ''research'' (researchPayload input) now w"

definition executeJob :: "string \<Rightarrow> JobSpec \<Rightarrow> int \<Rightarrow> world \<Rightarrow> outcome" where
  "executeJob jid input now w = executeResearchTask jid input now w"

text \<open>
  Each later stage reads the result artifact of the stage before it and sends it on,
  wrapped with the stage's instructions.
\<close>

definition dispatch_from ::
  "string \<Rightarrow> string \<Rightarrow> string \<Rightarrow> string \<Rightarrow> string list \<Rightarrow> int \<Rightarrow> world \<Rightarrow> outcome" where
  "dispatch_from jid result_name field task instructions now w =
     (case get (jid @ ''/'' @ result_name) w of
        Inl e \<Rightarrow> (Some e, w)
      | Inr input \<Rightarrow> sendTaskMessage jid task (stage_payload field input task instructions) now w)"

definition executeProductManagerTask :: "string \<Rightarrow> int \<Rightarrow> world \<Rightarrow> outcome" where
  "executeProductManagerTask jid now w =
     dispatch_from jid ''research-result.json'' ''research'' ''product_manager''
       [''Analyze research findings and define product strategy'',
        ''Create detailed product requirements and specifications'',
        ''Define user personas and user journey'',
        ''Establish product positioning and messaging framework'',
        ''Create comprehensive product brief for design and development''] now w"

definition executeDesignerTask :: "string \<Rightarrow> int \<Rightarrow> world \<Rightarrow> outcome" where
  "executeDesignerTask jid now w =
     dispatch_from jid ''drawer-result.json'' ''drawings'' ''designer''
       [''Create comprehensive design system and style guide based on visual mockups'',
        ''Design user interface layouts and wireframes'',
        ''Develop visual hierarchy and typography specifications'',
        ''Create color palette and branding guidelines'',
        ''Design responsive layouts for multiple screen sizes''] now w"

definition executeDrawerTask :: "string \<Rightarrow> int \<Rightarrow> world \<Rightarrow> outcome" where
  "executeDrawerTask jid now w =
     dispatch_from jid ''product-manager-result.json'' ''productSpec'' ''drawer''
       [''Create detailed visual mockups and prototypes based on product requirements'',
        ''Generate high-fidelity design assets and components'',
        ''Create interactive design elements and animations'',
        ''Develop comprehensive UI component library'',
        ''Prepare visual assets for design handoff''] now w"

definition executeCodeTask :: "string \<Rightarrow> int \<Rightarrow> world \<Rightarrow> outcome" where
  "executeCodeTask jid now w =
     dispatch_from jid ''designer-result.json'' ''designSpec'' ''coder''
       [''Create responsive HTML structure based on designs'',
        ''Implement modern CSS with pixel-perfect styling'',
        ''Add interactive elements and animations'',
        ''Ensure mobile-first responsive design'',
        ''Optimize for performance and user experience''] now w"

definition completeJob :: "string \<Rightarrow> int \<Rightarrow> world \<Rightarrow> outcome" where
  "completeJob jid now w = publishDone jid now w"

text \<open>The \<^verbatim>\<open>default\<close> branch of the switch only logs a warning.\<close>

definition handleTaskCompletion :: "string \<Rightarrow> string \<Rightarrow> int \<Rightarrow> world \<Rightarrow> outcome" where
  "handleTaskCompletion jid taskType now w =
     (if taskType = ''research'' then executeProductManagerTask jid now w
      else if taskType = ''product_manager'' then executeDrawerTask jid now w
      else if taskType = ''drawer'' then executeDesignerTask jid now w
      else if taskType = ''designer'' then executeCodeTask jid now w
      else if taskType = ''coder'' then completeJob jid now w
      else (None, w))"

section \<open>The events consumer\<close>

text \<open>
  The handler that \<^verbatim>\<open>startEventConsumer\<close> passes to \<^verbatim>\<open>consumeEvents\<close>. Its whole body is
  inside a \<^verbatim>\<open>try\<close> whose \<^verbatim>\<open>catch\<close> logs and returns, so the handler itself never throws:
  an error of \<^const>\<open>handleTaskCompletion\<close> is dropped and the world it left is kept.
  The metrics counters it bumps are not part of the model.
\<close>

definition onCompletionEvent :: "CompletionEvent \<Rightarrow> int \<Rightarrow> world \<Rightarrow> world" where
  "onCompletionEvent event now w =
     (if ev_status event = Progress then w
      else
        (let (isJobComplete, js) = completeTask event now (jobs w);
             w1 = w\<lparr>jobs := js\<rparr>
         in if isJobComplete then w1
            else if ev_status event = Success
            then snd (handleTaskCompletion (job_id event) (task_type event) now w1)
            else w1))"

text \<open>
  \<^verbatim>\<open>JSON.parse\<close> returns whatever object the body holds, and the annotation
  \<^verbatim>\<open>CompletionEvent\<close> is not checked. The \<^verbatim>\<open>job_completed\<close> announcement has no
  \<^verbatim>\<open>status\<close> and no \<^verbatim>\<open>job_id\<close>: it is not \<^verbatim>\<open>in_progress\<close>, \<^verbatim>\<open>completeTask\<close> looks
  up \<^verbatim>\<open>undefined\<close>, finds no job and returns false, and the status is not \<^verbatim>\<open>success\<close>,
  so the handler does nothing with it.
\<close>

fun eventHandler :: "event_json \<Rightarrow> int \<Rightarrow> world \<Rightarrow> outcome" where
  "eventHandler (CompletionJson event) now w = (None, onCompletionEvent event now w)"
| "eventHandler (JobCompletedJson jid ts) now w = (None, w)"

fun JSON_parse :: "events_body \<Rightarrow> err + event_json" where
  "JSON_parse (Unparseable s) = Inl SyntaxError"
| "JSON_parse (Parseable v) = Inr v"

definition deleteMessage :: "events_body \<Rightarrow> world \<Rightarrow> outcome" where
  "deleteMessage m w =
     (if sqs_up w then (None, w\<lparr>events_queue := remove1 m (events_queue w)\<rparr>)
      else (Some SQSUnavailable, w))"

text \<open>
  The body of the \<^verbatim>\<open>for\<close> loop of \<^verbatim>\<open>consumeEvents\<close> for one received message: parse,
  handle, delete, all in one \<^verbatim>\<open>try\<close>; the \<^verbatim>\<open>catch\<close> logs and goes on to the next
  message. A message that is not deleted stays on the queue and is delivered again.
\<close>

definition consumeEvents_message ::
  "(event_json \<Rightarrow> int \<Rightarrow> world \<Rightarrow> outcome) \<Rightarrow> events_body \<Rightarrow> int \<Rightarrow> world \<Rightarrow> world" where
  "consumeEvents_message handler m now w =
     (case JSON_parse m of
        Inl e \<Rightarrow> w
      | Inr event \<Rightarrow>
          (case handler event now w of
             (Some e, w1) \<Rightarrow> w1
           | (None, w1) \<Rightarrow> snd (deleteMessage m w1)))"

text \<open>
  One round of the \<^verbatim>\<open>while (true)\<close> loop: \<^verbatim>\<open>receiveMessage\<close> throws when SQS is down
  (the outer \<^verbatim>\<open>catch\<close> logs and waits); otherwise the received messages, each with the
  instant at which it is handled, are processed in turn.
\<close>

fun consumeEvents_loop ::
  "(event_json \<Rightarrow> int \<Rightarrow> world \<Rightarrow> outcome) \<Rightarrow> (events_body \<times> int) list \<Rightarrow> world \<Rightarrow> world" where
  "consumeEvents_loop handler [] w = w"
| "consumeEvents_loop handler ((m, now) # ms) w =
     consumeEvents_loop handler ms (consumeEvents_message handler m now w)"

definition consumeEvents_round ::
  "(event_json \<Rightarrow> int \<Rightarrow> world \<Rightarrow> outcome) \<Rightarrow> (events_body \<times> int) list \<Rightarrow> world \<Rightarrow> world" where
  "consumeEvents_round handler received w =
     (if sqs_up w then consumeEvents_loop handler received w else w)"

section \<open>APIServer (the api module in task-router/src/index.ts)\<close>

record response =
  code :: nat
  headers :: "(string \<times> string) list"
  body_job_id :: "string option"

definition falsy :: "string option \<Rightarrow> bool" where
  "falsy v = (v = None \<or> v = Some [])"

text \<open>
  \<^verbatim>\<open>POST /api/router/jobs\<close>. \<^verbatim>\<open>uuid\<close> is what \<^verbatim>\<open>uuidv4()\<close> returns, a non-empty string.
  \<^verbatim>\<open>executeJob\<close> is started without being awaited and its rejection is caught and
  counted, so the response is 201 whatever the dispatch does; the dispatch is taken to
  finish before the next request or event is handled. \<^verbatim>\<open>startJob\<close> is the only
  call in the \<^verbatim>\<open>try\<close> that can throw; the \<^verbatim>\<open>catch\<close> answers 500.
\<close>

definition post_router_jobs :: "JobSpec \<Rightarrow> string \<Rightarrow> int \<Rightarrow> world \<Rightarrow> response \<times> world" where
  "post_router_jobs jobSpec uuid now w =
     (if falsy (product jobSpec) \<or> falsy (audience jobSpec)
      then (\<lparr>code = 400, headers = [], body_job_id = None\<rparr>, w)
      else
        (let jid = (case spec_job_id jobSpec of
                      None \<Rightarrow> uuid
                    | Some s \<Rightarrow> if s = [] then uuid else s);
             js1 = createJob jid now (jobs w)
         in case startJob jid js1 of
              Inl e \<Rightarrow> (\<lparr>code = 500, headers = [], body_job_id = None\<rparr>, w\<lparr>jobs := js1\<rparr>)
            | Inr js2 \<Rightarrow>
                (\<lparr>code = 201, headers = [], body_job_id = Some jid\<rparr>,
                 snd (executeJob jid jobSpec now (w\<lparr>jobs := js2\<rparr>)))))"

text \<open>
  \<^verbatim>\<open>GET /api/router/tasks\<close>. \<^verbatim>\<open>Math.round\<close> rounds to the nearest integer, halves up:
  \<^verbatim>\<open>Math.round(x) = floor(x + 1/2)\<close>. With \<^verbatim>\<open>x = n / 3 * 100\<close> for a list length
  \<^verbatim>\<open>n\<close>, the fractional part of \<open>x\<close> is 0, 1/3 or 2/3, far enough from 1/2 for the
  double arithmetic to round as the exact quotient does, so the result is
  \<open>\<lfloor>100 n / 3 + 1/2\<rfloor> = (200 n + 3) div 6\<close>. \<^verbatim>\<open>completedTasks\<close> is always an array,
  which is truthy, so the guard \<^verbatim>\<open>!job.completedTasks\<close> never fires.
\<close>

definition totalTasks :: int where
  "totalTasks = 3"

definition calculateJobProgress :: "JobStatus \<Rightarrow> int" where
  "calculateJobProgress job =
     (2 * (int (length (completedTasks job)) * 100) + totalTasks) div (2 * totalTasks)"

record task_view =
  task_id :: string
  view_job_id :: string
  view_status :: job_state
  created_at :: int
  progress :: int

definition get_router_tasks :: "world \<Rightarrow> task_view list" where
  "get_router_tasks w =
     map (\<lambda>job. \<lparr>task_id = jobId job, view_job_id = jobId job, view_status = status job,
                  created_at = startedAt job, progress = calculateJobProgress job\<rparr>)
       (getAllJobs (jobs w))"

section \<open>The web front-end's job route (POST /api/jobs)\<close>

text \<open>
  The rate limiter lives in the front-end that forwards submissions to the router.
  \<^verbatim>\<open>rateLimitStore\<close> is a \<^verbatim>\<open>Map<string, number>\<close> from client address to the instant of
  the last admitted request. \<^verbatim>\<open>if (!lastRequest)\<close> holds for an absent entry and for
  the number 0.
\<close>

definition RATE_LIMIT_WINDOW :: int where
  "RATE_LIMIT_WINDOW = 60 * 1000"

definition checkRateLimit :: "string \<Rightarrow> int \<Rightarrow> (string \<times> int) list \<Rightarrow> bool \<times> (string \<times> int) list" where
  "checkRateLimit ip now st =
     (case map_of st ip of
        None \<Rightarrow> (True, AList.update ip now st)
      | Some lastRequest \<Rightarrow>
          if lastRequest = 0 then (True, AList.update ip now st)
          else if now - lastRequest \<ge> RATE_LIMIT_WINDOW then (True, AList.update ip now st)
          else (False, st))"

definition cleanupRateLimitStore :: "int \<Rightarrow> (string \<times> int) list \<Rightarrow> (string \<times> int) list" where
  "cleanupRateLimitStore now st = filter (\<lambda>(ip, timestamp). \<not> now - timestamp > RATE_LIMIT_WINDOW) st"

text \<open>
  A request carries the client address that \<^verbatim>\<open>getClientIP\<close> reads from its headers and a
  body, \<^const>\<open>None\<close> when \<^verbatim>\<open>request.json()\<close> throws. The state of the front-end is the
  limiter's store, whether a bucket name is configured, whether the router answers, and
  the router's world, which the front-end reaches through S3 and through
  \<^verbatim>\<open>POST /api/router/jobs\<close>.
\<close>

record web_request =
  clientIP :: string
  json_body :: "JobSpec option"

record web_state =
  rateLimitStore :: "(string \<times> int) list"
  bucket_configured :: bool
  router_up :: bool
  router :: world

definition jobSpec_json :: "JobSpec \<Rightarrow> json" where
  "jobSpec_json spec =
     JObject (opt_field ''product'' (product spec) @ opt_field ''audience'' (audience spec) @
              opt_field ''tone'' (tone spec) @ opt_field ''job_id'' (spec_job_id spec))"

definition storeJobSpecInS3 :: "string \<Rightarrow> JobSpec \<Rightarrow> world \<Rightarrow> outcome" where
  "storeJobSpecInS3 jid spec w = store (jid @ ''/research.json'') (jobSpec_json spec) w"

text \<open>
  \<^verbatim>\<open>createJobInTaskRouter\<close> posts the brief with the generated id to the router and
  throws unless the answer is a 2xx. The router finds a \<^verbatim>\<open>job_id\<close> in the body and does
  not mint an id of its own.
\<close>

definition createJobInTaskRouter :: "string \<Rightarrow> JobSpec \<Rightarrow> int \<Rightarrow> web_state \<Rightarrow> bool \<times> web_state" where
  "createJobInTaskRouter jid spec now ws =
     (if router_up ws then
        (let (r, w1) = post_router_jobs (spec\<lparr>spec_job_id := Some jid\<rparr>) jid now (router ws)
         in (200 \<le> code r \<and> code r < 300, ws\<lparr>router := w1\<rparr>))
      else (False, ws))"

definition rate_limited :: response where
  "rate_limited =
     \<lparr>code = 429,
      headers = [(''Retry-After'', ''60''), (''X-RateLimit-Limit'', ''1''),
                 (''X-RateLimit-Window'', ''60'')],
      body_job_id = None\<rparr>"

text \<open>
  \<^verbatim>\<open>POST\<close>: \<^verbatim>\<open>uuid\<close> is the id \<^verbatim>\<open>uuidv4()\<close> mints and \<^verbatim>\<open>sweep\<close> tells whether
  \<^verbatim>\<open>Math.random() < 0.01\<close> came out true.
\<close>

definition web_POST :: "web_request \<Rightarrow> int \<Rightarrow> string \<Rightarrow> bool \<Rightarrow> web_state \<Rightarrow> response \<times> web_state" where
  "web_POST req now uuid sweep ws =
     (let (allowed, st1) = checkRateLimit (clientIP req) now (rateLimitStore ws) in
      if \<not> allowed then (rate_limited, ws\<lparr>rateLimitStore := st1\<rparr>)
      else
        (let st2 = (if sweep then cleanupRateLimitStore now st1 else st1);
             ws1 = ws\<lparr>rateLimitStore := st2\<rparr>
         in case json_body req of
              None \<Rightarrow> (\<lparr>code = 400, headers = [], body_job_id = None\<rparr>, ws1)
            | Some spec \<Rightarrow>
                if falsy (product spec) \<or> falsy (audience spec)
                then (\<lparr>code = 400, headers = [], body_job_id = None\<rparr>, ws1)
                else
                  (let (stored, w1) =
                         (if bucket_configured ws1 then storeJobSpecInS3 uuid spec (router ws1)
                          else (None, router ws1));
                       ws2 = ws1\<lparr>router := w1\<rparr>
                   in case stored of
                        Some e \<Rightarrow> (\<lparr>code = 500, headers = [], body_job_id = Some uuid\<rparr>, ws2)
                      | None \<Rightarrow>
                          (let (ok, ws3) = createJobInTaskRouter uuid spec now ws2
                           in if ok then (\<lparr>code = 201, headers = [], body_job_id = Some uuid\<rparr>, ws3)
                              else (\<lparr>code = 500, headers = [], body_job_id = Some uuid\<rparr>, ws3)))))"

text \<open>
  Requests reach the front-end one after the other; each comes with the instant at which
  it is handled, the id minted for it and the outcome of the random draw.
\<close>

fun web_POSTs :: "(web_request \<times> int \<times> string \<times> bool) list \<Rightarrow> web_state \<Rightarrow> web_state" where
  "web_POSTs [] ws = ws"
| "web_POSTs ((req, now, uuid, sweep) # rs) ws =
     web_POSTs rs (snd (web_POST req now uuid sweep ws))"

section \<open>Two summaries of the code, used to state the theorems\<close>

text \<open>
  \<^verbatim>\<open>job_after\<close> is what \<^const>\<open>completeTask\<close> does to the record of the job it finds,
  branch by branch. \<^verbatim>\<open>next_stage\<close> is the table read off \<^const>\<open>handleTaskCompletion\<close>
  and the four dispatching functions: for the stage an event names, the stage that is
  dispatched, the result artifact that is read for it, and the queue it is sent to.
\<close>

definition job_after :: "CompletionEvent \<Rightarrow> int \<Rightarrow> JobStatus \<Rightarrow> JobStatus" where
  "job_after event now job =
     (if ev_status event = Progress then job
      else if ev_status event = Failure \<or> ev_status event = Error
      then job\<lparr>status := Failed, error := ev_error event, completedAt := Some now\<rparr>
      else if allTasksComplete (addTask (task_type event) job)
      then (addTask (task_type event) job)\<lparr>status := Completed, completedAt := Some now\<rparr>
      else addTask (task_type event) job)"

definition next_stage :: "string \<Rightarrow> (string \<times> string \<times> queue) option" where
  "next_stage t =
     (if t = ''research'' then Some (''product_manager'', ''research-result.json'', ProductManagerQ)
      else if t = ''product_manager'' then Some (''drawer'', ''product-manager-result.json'', DrawerQ)
      else if t = ''drawer'' then Some (''designer'', ''drawer-result.json'', DesignerQ)
      else if t = ''designer'' then Some (''coder'', ''designer-result.json'', CoderQ)
      else None)"

section \<open>Concrete scenarios\<close>

text \<open>The state of a freshly started router: no jobs, empty bucket, empty queues.\<close>

definition initial_world :: world where
  "initial_world =
     \<lparr>jobs = [], bucket = Map.empty, task_queues = (\<lambda>q. []), events_queue = [],
      s3_up = True, sqs_up = True\<rparr>"

definition old_failed_job :: JobStatus where
  "old_failed_job =
     \<lparr>jobId = ''old'', status = Failed, completedTasks = [], startedAt = 0,
      completedAt = Some 5, error = Some ''timeout''\<rparr>"

definition stuck_job :: JobStatus where
  "stuck_job =
     \<lparr>jobId = ''stuck'', status = In_Progress, completedTasks = [''research''],
      startedAt = 0, completedAt = None, error = None\<rparr>"

definition just_completed_job :: JobStatus where
  "just_completed_job =
     \<lparr>jobId = ''J'', status = Completed, completedTasks = requiredTasks, startedAt = 0,
      completedAt = Some 89940000, error = None\<rparr>"

definition acme_brief :: JobSpec where
  "acme_brief =
     \<lparr>product = Some ''Acme Widget'', audience = Some ''Developers'',
      tone = Some ''technical'', spec_job_id = Some ''J1''\<rparr>"

definition success_event :: "string \<Rightarrow> string \<Rightarrow> CompletionEvent" where
  "success_event jid task =
     \<lparr>job_id = jid, task_type = task, ev_status = Success, ev_error = None\<rparr>"

definition success_body :: "string \<Rightarrow> string \<Rightarrow> events_body" where
  "success_body jid task = Parseable (CompletionJson (success_event jid task))"

text \<open>The result artifacts that the workers of a job write, one per stage.\<close>

definition worker_results :: "string \<Rightarrow> string \<Rightarrow> json option" where
  "worker_results jid =
     [jid @ ''/research-result.json'' \<mapsto> JString ''insights'',
      jid @ ''/product-manager-result.json'' \<mapsto> JString ''product spec'',
      jid @ ''/drawer-result.json'' \<mapsto> JString ''drawings'',
      jid @ ''/designer-result.json'' \<mapsto> JString ''design spec'',
      jid @ ''/coder-result.json'' \<mapsto> JString ''code'']"

text \<open>
  Job J1 is admitted through \<^verbatim>\<open>POST /api/router/jobs\<close> at instant 1000; its workers
  write their results and report success in canonical order. \<^verbatim>\<open>J1_after k\<close> is the world
  after the consumer has processed the first \<open>k\<close> reports.
\<close>

definition admitted_J1 :: world where
  "admitted_J1 = snd (post_router_jobs acme_brief ''uuid-0'' 1000 initial_world)"

definition J1_in_order :: "(events_body \<times> int) list" where
  "J1_in_order =
     [(success_body ''J1'' ''research'', 2000),
      (success_body ''J1'' ''product_manager'', 3000),
      (success_body ''J1'' ''drawer'', 4000),
      (success_body ''J1'' ''designer'', 5000),
      (success_body ''J1'' ''coder'', 6000)]"

definition J1_reported :: world where
  "J1_reported =
     admitted_J1\<lparr>bucket := bucket admitted_J1 ++ worker_results ''J1'',
                 events_queue := map fst J1_in_order\<rparr>"

definition J1_after :: "nat \<Rightarrow> world" where
  "J1_after k = consumeEvents_round eventHandler (take k J1_in_order) J1_reported"

definition J1_coder_first :: world where
  "J1_coder_first =
     consumeEvents_round eventHandler [(success_body ''J1'' ''coder'', 2000)]
       (admitted_J1\<lparr>events_queue := [success_body ''J1'' ''coder'']\<rparr>)"

definition research_done_J1 :: JobStatus where
  "research_done_J1 =
     \<lparr>jobId = ''J1'', status = In_Progress, completedTasks = [''research''],
      startedAt = 1000, completedAt = None, error = None\<rparr>"

definition J1_designer_early :: world where
  "J1_designer_early =
     consumeEvents_round eventHandler [(success_body ''J1'' ''designer'', 3000)] (J1_after 1)"

text \<open>
  A research worker reports success for a job id the index does not hold (the router was
  restarted, or the job was swept, while the worker ran); the worker's result is in the
  bucket.
\<close>

definition ghost_reported :: world where
  "ghost_reported =
     initial_world\<lparr>bucket := worker_results ''ghost'',
                   events_queue := [success_body ''ghost'' ''research'']\<rparr>"

definition ghost_handled :: world where
  "ghost_handled =
     consumeEvents_round eventHandler [(success_body ''ghost'' ''research'', 2000)] ghost_reported"

definition error_event :: "string \<Rightarrow> string \<Rightarrow> string \<Rightarrow> CompletionEvent" where
  "error_event jid task msg =
     \<lparr>job_id = jid, task_type = task, ev_status = Error, ev_error = Some msg\<rparr>"

definition error_body :: "string \<Rightarrow> string \<Rightarrow> string \<Rightarrow> events_body" where
  "error_body jid task msg = Parseable (CompletionJson (error_event jid task msg))"

text \<open>
  Job J1 fails at the drawer stage after two stages (scenario S5 of the specification),
  and events arrive after it has failed or completed.
\<close>

definition J1_failed :: world where
  "J1_failed =
     consumeEvents_round eventHandler [(error_body ''J1'' ''drawer'' ''timeout'', 4000)]
       (J1_after 2)"

definition J1_failed_then_success :: world where
  "J1_failed_then_success =
     consumeEvents_round eventHandler [(success_body ''J1'' ''drawer'', 5000)] J1_failed"

definition J1_completed_then_error :: world where
  "J1_completed_then_error =
     consumeEvents_round eventHandler [(error_body ''J1'' ''coder'' ''late'', 7000)] (J1_after 5)"

definition J1_completed_then_success :: world where
  "J1_completed_then_success =
     consumeEvents_round eventHandler [(success_body ''J1'' ''coder'', 7000)] (J1_after 5)"

definition completed_J1 :: JobStatus where
  "completed_J1 =
     \<lparr>jobId = ''J1'', status = Completed, completedTasks = requiredTasks,
      startedAt = 1000, completedAt = Some 6000, error = None\<rparr>"

definition failed_J1 :: JobStatus where
  "failed_J1 =
     \<lparr>jobId = ''J1'', status = Failed, completedTasks = [''research'', ''product_manager''],
      startedAt = 1000, completedAt = Some 4000, error = Some ''timeout''\<rparr>"

text \<open>The research report of J1 is delivered twice in a row.\<close>

definition J1_research_twice :: world where
  "J1_research_twice =
     consumeEvents_round eventHandler
       [(success_body ''J1'' ''research'', 2000), (success_body ''J1'' ''research'', 2500)]
       J1_reported"

definition admitted_job_J1 :: JobStatus where
  "admitted_job_J1 =
     \<lparr>jobId = ''J1'', status = In_Progress, completedTasks = [], startedAt = 1000,
      completedAt = None, error = None\<rparr>"

text \<open>A second submission with the id of J1 arrives after J1 has completed research.\<close>

definition duplicate_brief :: JobSpec where
  "duplicate_brief =
     \<lparr>product = Some ''Acme Widget'', audience = Some ''Developers'', tone = None,
      spec_job_id = Some ''J1''\<rparr>"

definition J1_posted_again :: "response \<times> world" where
  "J1_posted_again = post_router_jobs duplicate_brief ''uuid-1'' 9000 (J1_after 1)"

text \<open>A body that is not JSON is on the events queue of a fresh router.\<close>

definition poisoned :: world where
  "poisoned = initial_world\<lparr>events_queue := [Unparseable ''{not json'']\<rparr>"

text \<open>
  The research worker of J1 reports success, but its result artifact is not in the
  bucket, so that dispatching the product-manager stage throws.
\<close>

definition J1_result_missing :: world where
  "J1_result_missing = admitted_J1\<lparr>events_queue := [success_body ''J1'' ''research'']\<rparr>"

text \<open>
  A handler that, unlike \<^const>\<open>eventHandler\<close>, lets the exception of the dispatch escape.
\<close>

definition rethrowing_handler :: "event_json \<Rightarrow> int \<Rightarrow> world \<Rightarrow> outcome" where
  "rethrowing_handler v now w =
     (case v of
        CompletionJson e \<Rightarrow> handleTaskCompletion (job_id e) (task_type e) now w
      | JobCompletedJson jid ts \<Rightarrow> (None, w))"

text \<open>
  The front-end and the router freshly started; two addresses submit the same brief
  (scenario S6 of the specification).
\<close>

definition web_fresh :: web_state where
  "web_fresh =
     \<lparr>rateLimitStore = [], bucket_configured = True, router_up = True,
      router = initial_world\<rparr>"

definition anonymous_brief :: JobSpec where
  "anonymous_brief =
     \<lparr>product = Some ''Acme Widget'', audience = Some ''Developers'',
      tone = Some ''technical'', spec_job_id = None\<rparr>"

definition post_from :: "string \<Rightarrow> web_request" where
  "post_from ip = \<lparr>clientIP = ip, json_body = Some anonymous_brief\<rparr>"

definition web_after_two :: web_state where
  "web_after_two =
     web_POSTs [(post_from ''10.0.0.2'', 5000, ''uuid-b'', True)]
       (snd (web_POST (post_from ''10.0.0.1'') 1000 ''uuid-a'' False web_fresh))"

text \<open>Two submissions sent straight to the router at the same instant.\<close>

definition router_posted_twice :: "response \<times> world" where
  "router_posted_twice =
     post_router_jobs anonymous_brief ''uuid-b'' 1000
       (snd (post_router_jobs anonymous_brief ''uuid-a'' 1000 initial_world))"

text \<open>Job J1 fails at the coder stage, with four stages completed.\<close>

definition J1_failed_at_coder :: world where
  "J1_failed_at_coder =
     consumeEvents_round eventHandler [(error_body ''J1'' ''coder'' ''crash'', 6000)] (J1_after 4)"

definition failed_four_J1 :: JobStatus where
  "failed_four_J1 =
     \<lparr>jobId = ''J1'', status = Failed,
      completedTasks = [''research'', ''product_manager'', ''drawer'', ''designer''],
      startedAt = 1000, completedAt = Some 6000, error = Some ''crash''\<rparr>"

section \<open>Facts about the events consumer\<close>

lemma map_of_completeTask:
  "map_of (snd (completeTask e now js)) j =
     (if j = job_id e then map_option (job_after e now) (map_of js j) else map_of js j)"
  by (auto simp: completeTask_def job_after_def Let_def update_conv' split: option.splits)

lemma map_fst_update_present:
  "map_of js k = Some v \<Longrightarrow> map fst (AList.update k v' js) = map fst js"
  by (induction js) (auto split: if_splits)

lemma keys_completeTask: "map fst (snd (completeTask e now js)) = map fst js"
  by (auto simp: completeTask_def Let_def map_fst_update_present split: option.splits)

lemma jobs_sendTaskMessage: "jobs (snd (sendTaskMessage jid task p now w)) = jobs w"
  by (auto simp: sendTaskMessage_def storePayload_def store_def sendMessage_def
           split: sum.splits)

lemma jobs_dispatch_from: "jobs (snd (dispatch_from jid r f task ins now w)) = jobs w"
  by (auto simp: dispatch_from_def jobs_sendTaskMessage split: sum.splits)

lemma jobs_handleTaskCompletion: "jobs (snd (handleTaskCompletion jid t now w)) = jobs w"
  by (simp add: handleTaskCompletion_def executeProductManagerTask_def executeDrawerTask_def
        executeDesignerTask_def executeCodeTask_def completeJob_def publishDone_def
        jobs_dispatch_from)

lemma jobs_onCompletionEvent:
  "jobs (onCompletionEvent e now w) = snd (completeTask e now (jobs w))"
  by (auto simp: onCompletionEvent_def jobs_handleTaskCompletion completeTask_def Let_def
           split: prod.splits option.splits)

lemma jobs_deleteMessage: "jobs (snd (deleteMessage m w)) = jobs w"
  by (simp add: deleteMessage_def)

lemma jobs_consume_completion:
  "jobs (consumeEvents_message eventHandler (Parseable (CompletionJson e)) now w) =
     snd (completeTask e now (jobs w))"
  by (simp add: consumeEvents_message_def jobs_deleteMessage jobs_onCompletionEvent)

lemma jobs_consume_other:
  "jobs (consumeEvents_message eventHandler (Unparseable s) now w) = jobs w"
  "jobs (consumeEvents_message eventHandler (Parseable (JobCompletedJson jid ts)) now w) = jobs w"
  by (simp_all add: consumeEvents_message_def jobs_deleteMessage)

lemma job_after_grows:
  "distinct (completedTasks job) \<Longrightarrow>
     distinct (completedTasks (job_after e now job)) \<and>
     prefix (completedTasks job) (completedTasks (job_after e now job))"
  by (auto simp: job_after_def addTask_def)

lemma consume_message_grows:
  assumes "map_of (jobs w) jid = Some job" and "distinct (completedTasks job)"
  shows "\<exists>job'. map_of (jobs (consumeEvents_message eventHandler m now w)) jid = Some job' \<and>
           distinct (completedTasks job') \<and> prefix (completedTasks job) (completedTasks job')"
proof (cases m)
  case (Unparseable s)
  with assms show ?thesis by (simp add: jobs_consume_other)
next
  case (Parseable v)
  show ?thesis
  proof (cases v)
    case (CompletionJson e)
    with Parseable assms job_after_grows [of job e now] show ?thesis
      by (auto simp: jobs_consume_completion map_of_completeTask)
  next
    case (JobCompletedJson j ts)
    with Parseable assms show ?thesis by (simp add: jobs_consume_other)
  qed
qed

lemma consume_loop_grows:
  assumes "map_of (jobs w) jid = Some job" and "distinct (completedTasks job)"
  shows "\<exists>job'. map_of (jobs (consumeEvents_loop eventHandler received w)) jid = Some job' \<and>
           distinct (completedTasks job') \<and> prefix (completedTasks job) (completedTasks job')"
  using assms
proof (induction received arbitrary: w job)
  case Nil
  then show ?case by simp
next
  case (Cons a received)
  obtain m now where a: "a = (m, now)" by (cases a)
  from consume_message_grows [OF Cons.prems, of m now]
  obtain job1 where j1: "map_of (jobs (consumeEvents_message eventHandler m now w)) jid = Some job1"
    "distinct (completedTasks job1)" "prefix (completedTasks job) (completedTasks job1)"
    by blast
  from Cons.IH [OF j1(1) j1(2)] j1(3) a show ?case
    by (auto intro: prefix_order.trans)
qed

lemma sendTaskMessage_ok:
  assumes "s3_up w" and "sqs_up w" and "getQueueUrl task = Inr q"
  shows "sendTaskMessage jid task p now w =
           (None, w\<lparr>bucket := (bucket w)(payload_key jid task \<mapsto> p),
                    task_queues := (task_queues w)
                      (q := task_queues w q @ [TaskMessage jid task (payload_key jid task) now])\<rparr>)"
  using assms by (simp add: sendTaskMessage_def storePayload_def store_def sendMessage_def)

lemma getQueueUrl_stages:
  "getQueueUrl ''research'' = Inr ResearchQ"
  "getQueueUrl ''product_manager'' = Inr ProductManagerQ"
  "getQueueUrl ''drawer'' = Inr DrawerQ"
  "getQueueUrl ''designer'' = Inr DesignerQ"
  "getQueueUrl ''coder'' = Inr CoderQ"
  by (simp_all add: getQueueUrl_def)

lemma handleTaskCompletion_stages:
  "handleTaskCompletion jid ''research'' now w = executeProductManagerTask jid now w"
  "handleTaskCompletion jid ''product_manager'' now w = executeDrawerTask jid now w"
  "handleTaskCompletion jid ''drawer'' now w = executeDesignerTask jid now w"
  "handleTaskCompletion jid ''designer'' now w = executeCodeTask jid now w"
  "handleTaskCompletion jid ''coder'' now w = completeJob jid now w"
  by (simp_all add: handleTaskCompletion_def)

lemma dispatch_from_ok:
  assumes "bucket w (jid @ ''/'' @ art) = Some v" and "s3_up w" and "sqs_up w"
    and "getQueueUrl task = Inr q"
  shows "dispatch_from jid art f task ins now w =
           (None, w\<lparr>bucket := (bucket w)(payload_key jid task \<mapsto> stage_payload f v task ins),
                    task_queues := (task_queues w)
                      (q := task_queues w q @ [TaskMessage jid task (payload_key jid task) now])\<rparr>)"
  using assms by (simp add: dispatch_from_def get_def sendTaskMessage_ok)

lemma next_stage_cases:
  assumes "next_stage t = Some (nxt, art, q)"
  obtains "t = ''research''" "nxt = ''product_manager''" "art = ''research-result.json''"
      "q = ProductManagerQ"
  | "t = ''product_manager''" "nxt = ''drawer''" "art = ''product-manager-result.json''"
      "q = DrawerQ"
  | "t = ''drawer''" "nxt = ''designer''" "art = ''drawer-result.json''" "q = DesignerQ"
  | "t = ''designer''" "nxt = ''coder''" "art = ''designer-result.json''" "q = CoderQ"
  using assms unfolding next_stage_def by (auto split: if_splits)

lemma handleTaskCompletion_dispatches:
  assumes "next_stage t = Some (nxt, art, q)" and "bucket w (jid @ ''/'' @ art) = Some v"
    and "s3_up w" and "sqs_up w"
  shows "\<exists>p. handleTaskCompletion jid t now w =
           (None, w\<lparr>bucket := (bucket w)(payload_key jid nxt \<mapsto> p),
                    task_queues := (task_queues w)
                      (q := task_queues w q @ [TaskMessage jid nxt (payload_key jid nxt) now])\<rparr>)"
  using assms(1)
proof (cases rule: next_stage_cases)
  case 1
  from assms(2) have b: "bucket w (jid @ ''/'' @ ''research-result.json'') = Some v"
    unfolding 1 .
  show ?thesis
    unfolding 1 handleTaskCompletion_stages executeProductManagerTask_def
    by (rule exI, rule dispatch_from_ok [OF b assms(3,4) getQueueUrl_stages(2)])
next
  case 2
  from assms(2) have b: "bucket w (jid @ ''/'' @ ''product-manager-result.json'') = Some v"
    unfolding 2 .
  show ?thesis
    unfolding 2 handleTaskCompletion_stages executeDrawerTask_def
    by (rule exI, rule dispatch_from_ok [OF b assms(3,4) getQueueUrl_stages(3)])
next
  case 3
  from assms(2) have b: "bucket w (jid @ ''/'' @ ''drawer-result.json'') = Some v"
    unfolding 3 .
  show ?thesis
    unfolding 3 handleTaskCompletion_stages executeDesignerTask_def
    by (rule exI, rule dispatch_from_ok [OF b assms(3,4) getQueueUrl_stages(4)])
next
  case 4
  from assms(2) have b: "bucket w (jid @ ''/'' @ ''designer-result.json'') = Some v"
    unfolding 4 .
  show ?thesis
    unfolding 4 handleTaskCompletion_stages executeCodeTask_def
    by (rule exI, rule dispatch_from_ok [OF b assms(3,4) getQueueUrl_stages(5)])
qed


lemma fst_completeTask_success:
  "ev_status e = Success \<Longrightarrow>
     fst (completeTask e now js) =
       (case map_of js (job_id e) of
          None \<Rightarrow> False
        | Some job \<Rightarrow> allTasksComplete (addTask (task_type e) job))"
  by (simp add: completeTask_def Let_def split: option.splits)

lemma consume_success:
  assumes "ev_status e = Success"
  shows "consumeEvents_message eventHandler (Parseable (CompletionJson e)) now w =
           (if fst (completeTask e now (jobs w))
            then snd (deleteMessage (Parseable (CompletionJson e))
                   (w\<lparr>jobs := snd (completeTask e now (jobs w))\<rparr>))
            else snd (deleteMessage (Parseable (CompletionJson e))
                   (snd (handleTaskCompletion (job_id e) (task_type e) now
                      (w\<lparr>jobs := snd (completeTask e now (jobs w))\<rparr>)))))"
  using assms
  by (simp add: consumeEvents_message_def onCompletionEvent_def Let_def split: prod.splits)

lemma task_queues_deleteMessage: "task_queues (snd (deleteMessage m w)) = task_queues w"
  by (simp add: deleteMessage_def)

lemma consume_success_dispatches:
  assumes "ev_status e = Success" and "map_of (jobs w) (job_id e) = Some job"
    and "\<not> allTasksComplete (addTask (task_type e) job)"
    and "next_stage (task_type e) = Some (nxt, art, q)"
    and "bucket w (job_id e @ ''/'' @ art) = Some v" and "s3_up w" and "sqs_up w"
  shows "task_queues (consumeEvents_message eventHandler (Parseable (CompletionJson e)) now w) q =
           task_queues w q @ [TaskMessage (job_id e) nxt (payload_key (job_id e) nxt) now]"
proof -
  let ?w1 = "w\<lparr>jobs := snd (completeTask e now (jobs w))\<rparr>"
  have f: "\<not> fst (completeTask e now (jobs w))"
    using assms(1-3) by (simp add: fst_completeTask_success)
  from handleTaskCompletion_dispatches [OF assms(4), of ?w1 "job_id e" v now] assms(5-7)
  obtain p where "handleTaskCompletion (job_id e) (task_type e) now ?w1 =
      (None, ?w1\<lparr>bucket := (bucket ?w1)(payload_key (job_id e) nxt \<mapsto> p),
         task_queues := (task_queues ?w1)
           (q := task_queues ?w1 q @ [TaskMessage (job_id e) nxt (payload_key (job_id e) nxt) now])\<rparr>)"
    by auto
  with f show ?thesis
    by (simp add: consume_success [OF assms(1)] task_queues_deleteMessage)
qed

lemma artifact_is_not_payload:
  assumes "next_stage t = Some (nxt, art, q)"
  shows "jid @ ''/'' @ art \<noteq> payload_key jid nxt"
  using assms by (cases rule: next_stage_cases) (simp_all add: payload_key_def)

lemma addTask_idem: "addTask t (addTask t job) = addTask t job"
  by (simp add: addTask_def)

lemma success_step:
  assumes "ev_status e = Success" and "map_of (jobs w) (job_id e) = Some job"
    and "\<not> allTasksComplete (addTask (task_type e) job)"
    and "next_stage (task_type e) = Some (nxt, art, q)"
    and "bucket w (job_id e @ ''/'' @ art) = Some v" and "s3_up w" and "sqs_up w"
  shows "\<exists>p. consumeEvents_message eventHandler (Parseable (CompletionJson e)) now w =
           w\<lparr>jobs := AList.update (job_id e) (addTask (task_type e) job) (jobs w),
             bucket := (bucket w)(payload_key (job_id e) nxt \<mapsto> p),
             task_queues := (task_queues w)
               (q := task_queues w q @
                  [TaskMessage (job_id e) nxt (payload_key (job_id e) nxt) now]),
             events_queue := remove1 (Parseable (CompletionJson e)) (events_queue w)\<rparr>"
proof -
  let ?js = "AList.update (job_id e) (addTask (task_type e) job) (jobs w)"
  let ?w1 = "w\<lparr>jobs := ?js\<rparr>"
  have c: "completeTask e now (jobs w) = (False, ?js)"
    using assms(1-3) by (simp add: completeTask_def Let_def)
  from handleTaskCompletion_dispatches [OF assms(4), of ?w1 "job_id e" v now] assms(5-7)
  obtain p where h: "handleTaskCompletion (job_id e) (task_type e) now ?w1 =
      (None, ?w1\<lparr>bucket := (bucket ?w1)(payload_key (job_id e) nxt \<mapsto> p),
         task_queues := (task_queues ?w1)
           (q := task_queues ?w1 q @ [TaskMessage (job_id e) nxt (payload_key (job_id e) nxt) now])\<rparr>)"
    by auto
  show ?thesis
    by (rule exI [of _ p]) (simp add: consume_success [OF assms(1)] c h deleteMessage_def assms(7))
qed

lemma redelivered_success:
  assumes "ev_status e = Success" and "map_of (jobs w) (job_id e) = Some job"
    and "\<not> allTasksComplete (addTask (task_type e) job)"
    and "next_stage (task_type e) = Some (nxt, art, q)"
    and "bucket w (job_id e @ ''/'' @ art) = Some v" and "s3_up w" and "sqs_up w"
  shows "jobs (consumeEvents_loop eventHandler
                 (map (Pair (Parseable (CompletionJson e))) ts) w) =
           (if ts = [] then jobs w
            else AList.update (job_id e) (addTask (task_type e) job) (jobs w)) \<and>
         task_queues (consumeEvents_loop eventHandler
                 (map (Pair (Parseable (CompletionJson e))) ts) w) q =
           task_queues w q @
             map (TaskMessage (job_id e) nxt (payload_key (job_id e) nxt)) ts"
  using assms(2,3,5-7)
proof (induction ts arbitrary: w job)
  case Nil
  then show ?case by simp
next
  case (Cons now ts)
  let ?m = "Parseable (CompletionJson e)"
  let ?job1 = "addTask (task_type e) job"
  let ?w1 = "consumeEvents_message eventHandler ?m now w"
  from success_step [OF assms(1) Cons.prems(1,2) assms(4) Cons.prems(3-5), of now]
  obtain p where w1: "?w1 =
      w\<lparr>jobs := AList.update (job_id e) ?job1 (jobs w),
        bucket := (bucket w)(payload_key (job_id e) nxt \<mapsto> p),
        task_queues := (task_queues w)
          (q := task_queues w q @ [TaskMessage (job_id e) nxt (payload_key (job_id e) nxt) now]),
        events_queue := remove1 ?m (events_queue w)\<rparr>"
    by blast
  have j1: "map_of (jobs ?w1) (job_id e) = Some ?job1"
    by (simp add: w1 update_conv')
  have n1: "\<not> allTasksComplete (addTask (task_type e) ?job1)"
    using Cons.prems(2) by (simp add: addTask_idem)
  have b1: "bucket ?w1 (job_id e @ ''/'' @ art) = Some v"
    using Cons.prems(3) artifact_is_not_payload [OF assms(4), of "job_id e"] by (simp add: w1)
  have u1: "s3_up ?w1" "sqs_up ?w1"
    using Cons.prems(4,5) by (simp_all add: w1)
  from Cons.IH [OF j1 n1 b1 u1]
  show ?case
    by (simp add: w1 addTask_idem)
qed

lemma jobs_executeJob: "jobs (snd (executeJob jid spec now w)) = jobs w"
  by (simp add: executeJob_def executeResearchTask_def jobs_sendTaskMessage)

lemma post_router_jobs_valid:
  assumes "\<not> falsy (product spec)" and "\<not> falsy (audience spec)"
    and "spec_job_id spec = Some jid" and "jid \<noteq> []"
  shows "fst (post_router_jobs spec uuid now w) =
           \<lparr>code = 201, headers = [], body_job_id = Some jid\<rparr> \<and>
         jobs (snd (post_router_jobs spec uuid now w)) =
           AList.update jid
             \<lparr>jobId = jid, status = In_Progress, completedTasks = [], startedAt = now,
              completedAt = None, error = None\<rparr> (jobs w)"
  using assms
  by (simp add: post_router_jobs_def createJob_def startJob_def update_conv' Let_def
        jobs_executeJob)

lemma jobs_redelivered:
  assumes "ev_status e = Success" and "map_of (jobs w) (job_id e) = Some job"
    and "\<not> allTasksComplete (addTask (task_type e) job)"
  shows "jobs (consumeEvents_loop eventHandler
                 (map (Pair (Parseable (CompletionJson e))) ts) w) =
           (if ts = [] then jobs w
            else AList.update (job_id e) (addTask (task_type e) job) (jobs w))"
  using assms(2,3)
proof (induction ts arbitrary: w job)
  case Nil
  then show ?case by simp
next
  case (Cons now ts)
  let ?job1 = "addTask (task_type e) job"
  let ?w1 = "consumeEvents_message eventHandler (Parseable (CompletionJson e)) now w"
  have j: "jobs ?w1 = AList.update (job_id e) ?job1 (jobs w)"
    using assms(1) Cons.prems by (simp add: jobs_consume_completion completeTask_def Let_def)
  then have j1: "map_of (jobs ?w1) (job_id e) = Some ?job1"
    by (simp add: update_conv')
  have n1: "\<not> allTasksComplete (addTask (task_type e) ?job1)"
    using Cons.prems(2) by (simp add: addTask_idem)
  from Cons.IH [OF j1 n1] show ?case
    by (simp add: j addTask_idem)
qed

section \<open>Completed stages under arbitrary events\<close>

text \<open>
  Claim C1, as amended. For a job of the index and any batch of received messages, the
  job stays in the index, its \<^verbatim>\<open>completedTasks\<close> never holds a stage twice and only
  grows at its end. A success event for a stage that is not yet in the list is appended
  whatever stage it names: \<^const>\<open>completeTask\<close> does not compare it with the next expected
  stage. Unless the job is complete after it, the handler then dispatches the stage that
  follows the event's stage: when the artifact it reads is in the bucket and S3 and SQS
  answer, exactly one task message is appended to that stage's queue.
\<close>

theorem completed_stages_append_any_stage:
  assumes "map_of (jobs w) jid = Some job" and "distinct (completedTasks job)"
  shows "(\<exists>job'. map_of (jobs (consumeEvents_round eventHandler received w)) jid = Some job' \<and>
            distinct (completedTasks job') \<and>
            prefix (completedTasks job) (completedTasks job')) \<and>
         (ev_status e = Success \<and> job_id e = jid \<and> task_type e \<notin> set (completedTasks job) \<longrightarrow>
            (\<exists>job'. map_of (jobs (consumeEvents_message eventHandler
                        (Parseable (CompletionJson e)) now w)) jid = Some job' \<and>
               completedTasks job' = completedTasks job @ [task_type e]) \<and>
            (\<not> allTasksComplete (addTask (task_type e) job) \<and>
             next_stage (task_type e) = Some (nxt, art, q) \<and>
             bucket w (jid @ ''/'' @ art) = Some v \<and> s3_up w \<and> sqs_up w \<longrightarrow>
               task_queues (consumeEvents_message eventHandler
                              (Parseable (CompletionJson e)) now w) q =
                 task_queues w q @ [TaskMessage jid nxt (payload_key jid nxt) now]))"
proof (intro conjI impI)
  show "\<exists>job'. map_of (jobs (consumeEvents_round eventHandler received w)) jid = Some job' \<and>
          distinct (completedTasks job') \<and> prefix (completedTasks job) (completedTasks job')"
    using consume_loop_grows [OF assms, of received] assms
    by (auto simp: consumeEvents_round_def)
next
  assume e: "ev_status e = Success \<and> job_id e = jid \<and> task_type e \<notin> set (completedTasks job)"
  with assms(1)
  show "\<exists>job'. map_of (jobs (consumeEvents_message eventHandler
                   (Parseable (CompletionJson e)) now w)) jid = Some job' \<and>
          completedTasks job' = completedTasks job @ [task_type e]"
    by (auto simp: jobs_consume_completion map_of_completeTask job_after_def addTask_def)
next
  assume e: "ev_status e = Success \<and> job_id e = jid \<and> task_type e \<notin> set (completedTasks job)"
    and d: "\<not> allTasksComplete (addTask (task_type e) job) \<and>
             next_stage (task_type e) = Some (nxt, art, q) \<and>
             bucket w (jid @ ''/'' @ art) = Some v \<and> s3_up w \<and> sqs_up w"
  from e have j: "job_id e = jid" by simp
  show "task_queues (consumeEvents_message eventHandler (Parseable (CompletionJson e)) now w) q =
          task_queues w q @ [TaskMessage jid nxt (payload_key jid nxt) now]"
    using consume_success_dispatches [of e w job nxt art q v now] e d assms(1)
    unfolding j by simp
qed

text \<open>
  Claim C1 as stated fails. After research has completed for job J1, a success event for
  designer arrives before its turn: it is appended, so that the list is no longer a
  prefix of the canonical order, and a coder task is dispatched.
\<close>

theorem designer_before_its_turn_counterexample:
  "map_of (jobs (J1_after 1)) ''J1'' =
     Some \<lparr>jobId = ''J1'', status = In_Progress, completedTasks = [''research''],
           startedAt = 1000, completedAt = None, error = None\<rparr> \<and>
   task_queues (J1_after 1) CoderQ = [] \<and>
   map_of (jobs J1_designer_early) ''J1'' =
     Some \<lparr>jobId = ''J1'', status = In_Progress, completedTasks = [''research'', ''designer''],
           startedAt = 1000, completedAt = None, error = None\<rparr> \<and>
   \<not> prefix [''research'', ''designer''] requiredTasks \<and>
   task_queues J1_designer_early CoderQ = [TaskMessage ''J1'' ''coder'' ''J1/coder.json'' 3000]"
  by code_simp


theorem completed_stages_append_any_stage_witness:
  "map_of (jobs (J1_after 1)) ''J1'' = Some research_done_J1 \<and>
   distinct (completedTasks research_done_J1) \<and>
   ev_status (success_event ''J1'' ''designer'') = Success \<and>
   ''designer'' \<notin> set (completedTasks research_done_J1) \<and>
   next_stage ''designer'' = Some (''coder'', ''designer-result.json'', CoderQ) \<and>
   (\<exists>job'. map_of (jobs (consumeEvents_round eventHandler
               [(success_body ''J1'' ''designer'', 3000)] (J1_after 1))) ''J1'' = Some job' \<and>
      distinct (completedTasks job') \<and>
      prefix (completedTasks research_done_J1) (completedTasks job')) \<and>
   (\<exists>job'. map_of (jobs (consumeEvents_message eventHandler
               (Parseable (CompletionJson (success_event ''J1'' ''designer''))) 3000
               (J1_after 1))) ''J1'' = Some job' \<and>
      completedTasks job' = completedTasks research_done_J1 @ [''designer'']) \<and>
   task_queues (consumeEvents_message eventHandler
       (Parseable (CompletionJson (success_event ''J1'' ''designer''))) 3000 (J1_after 1)) CoderQ =
     task_queues (J1_after 1) CoderQ @
       [TaskMessage ''J1'' ''coder'' (payload_key ''J1'' ''coder'') 3000]"
proof -
  let ?e = "success_event ''J1'' ''designer''"
  have h1: "map_of (jobs (J1_after 1)) ''J1'' = Some research_done_J1" by code_simp
  have h2: "distinct (completedTasks research_done_J1)" by code_simp
  have h3: "ev_status ?e = Success \<and> job_id ?e = ''J1'' \<and>
            task_type ?e \<notin> set (completedTasks research_done_J1)" by code_simp
  have h4: "\<not> allTasksComplete (addTask (task_type ?e) research_done_J1) \<and>
            next_stage (task_type ?e) = Some (''coder'', ''designer-result.json'', CoderQ) \<and>
            bucket (J1_after 1) (''J1'' @ ''/'' @ ''designer-result.json'') =
              Some (JString ''design spec'') \<and>
            s3_up (J1_after 1) \<and> sqs_up (J1_after 1)" by code_simp
  have t: "task_type ?e = ''designer''" by (simp add: success_event_def)
  from completed_stages_append_any_stage [OF h1 h2,
      of "[(success_body ''J1'' ''designer'', 3000)]" ?e 3000 "''coder''"
        "''designer-result.json''" CoderQ "JString ''design spec''"] h1 h2 h3 h4
  show ?thesis unfolding t by blast
qed

section \<open>Facts about the job index\<close>

lemma map_of_fold_delete:
  "map_of (fold AList.delete ks js) k = (if k \<in> set ks then None else map_of js k)"
  by (induction ks arbitrary: js) (auto simp: delete_conv')

lemma mem_jobsToDelete:
  assumes "distinct (map fst js)"
  shows "jid \<in> set (jobsToDelete maxAge now js) \<longleftrightarrow>
         (\<exists>job. map_of js jid = Some job \<and> now - startedAt job > maxAge \<and> is_terminal job)"
  using assms by (auto simp: jobsToDelete_def image_iff)

section \<open>The reaper\<close>

text \<open>
  Claim C8, as amended. \<^const>\<open>cleanup\<close> removes exactly the jobs that are completed or
  failed and whose start (\<^verbatim>\<open>startedAt\<close>, not \<^verbatim>\<open>completedAt\<close>) lies more than
  \<^verbatim>\<open>maxAge\<close> milliseconds before now; every other job, in particular every queued or
  in-progress one of any age, stays in the index with its record unchanged. The
  hypothesis says that the index is a map: no key occurs twice.
\<close>

theorem cleanup_evicts_by_start_age:
  assumes "distinct (map fst js)"
  shows "map_of (cleanup maxAge now js) jid =
           (case map_of js jid of
              None \<Rightarrow> None
            | Some job \<Rightarrow>
                if now - startedAt job > maxAge \<and> (status job = Completed \<or> status job = Failed)
                then None else Some job)"
  by (auto simp: cleanup_def map_of_fold_delete mem_jobsToDelete [OF assms] is_terminal_def
           split: option.splits)

theorem cleanup_evicts_by_start_age_witness:
  "distinct (map fst [(''old'', old_failed_job), (''stuck'', stuck_job)]) \<and>
   map_of (cleanup default_maxAge 90000000 [(''old'', old_failed_job), (''stuck'', stuck_job)])
     ''old'' = None \<and>
   map_of (cleanup default_maxAge 90000000 [(''old'', old_failed_job), (''stuck'', stuck_job)])
     ''stuck'' = Some stuck_job"
proof -
  let ?js = "[(''old'', old_failed_job), (''stuck'', stuck_job)]"
  have d: "distinct (map fst ?js)" by simp
  show ?thesis
    using d cleanup_evicts_by_start_age [OF d, of default_maxAge 90000000 "''old''"]
      cleanup_evicts_by_start_age [OF d, of default_maxAge 90000000 "''stuck''"]
    by (simp add: default_maxAge_def old_failed_job_def stuck_job_def)
qed

text \<open>
  Claim C8 as stated fails: a job that started 25 hours ago and completed one minute ago
  is evicted by the default sweep, although its \<^verbatim>\<open>completedAt\<close> is not older than 24
  hours.
\<close>

theorem cleanup_recent_completion_counterexample:
  "map_of (cleanup default_maxAge 90000000 [(''J'', just_completed_job)]) ''J'' = None \<and>
   status just_completed_job = Completed \<and>
   completedAt just_completed_job = Some 89940000 \<and>
   \<not> (90000000 - 89940000 > default_maxAge)"
  by (simp add: cleanup_def jobsToDelete_def is_terminal_def default_maxAge_def
        just_completed_job_def)

section \<open>Progress reported by the tasks endpoint\<close>

text \<open>
  Claim C10 at a failing input. The tasks endpoint divides by \<^const>\<open>totalTasks\<close>, which
  is 3 and not 5: a job with all five stages complete is listed with progress 167, and
  a job with one stage complete with progress 33.
\<close>

theorem progress_of_five_stages_is_167:
  "map progress (get_router_tasks (initial_world\<lparr>jobs :=
      [(''J'', just_completed_job), (''stuck'', stuck_job)]\<rparr>)) = [167, 33]"
  by (simp add: get_router_tasks_def getAllJobs_def calculateJobProgress_def totalTasks_def
        requiredTasks_def initial_world_def just_completed_job_def stuck_job_def)

section \<open>The job-done announcement\<close>

text \<open>
  Claim C3 at a failing input. Job J1 is admitted and its five stages report success in
  canonical order. The fifth event sets the status to completed, but no
  \<^verbatim>\<open>job_completed\<close> message is ever sent: after each of the five events the events queue
  holds just the reports not yet processed, and it is empty at the end. The handler calls
  \<^const>\<open>handleTaskCompletion\<close>, and through it \<^const>\<open>completeJob\<close>, only when
  \<^const>\<open>completeTask\<close> returns false. So the announcement is sent exactly when a coder
  success leaves the job incomplete: when coder reports first, the job stays in progress
  and the announcement is on the queue.
\<close>

theorem no_job_completed_after_five_stages:
  "map_of (jobs (J1_after 5)) ''J1'' =
     Some \<lparr>jobId = ''J1'', status = Completed, completedTasks = requiredTasks,
           startedAt = 1000, completedAt = Some 6000, error = None\<rparr> \<and>
   map (\<lambda>k. events_queue (J1_after k)) [0, 1, 2, 3, 4, 5] =
     map (\<lambda>k. drop k (map fst J1_in_order)) [0, 1, 2, 3, 4, 5] \<and>
   events_queue (J1_after 5) = [] \<and>
   map_of (jobs J1_coder_first) ''J1'' =
     Some \<lparr>jobId = ''J1'', status = In_Progress, completedTasks = [''coder''],
           startedAt = 1000, completedAt = None, error = None\<rparr> \<and>
   events_queue J1_coder_first = [Parseable (JobCompletedJson ''J1'' 2000)]"
  by code_simp

section \<open>Events for unknown jobs\<close>

text \<open>
  Claim C6 at a failing input. A success event for research names a job that is not in
  the index. \<^const>\<open>completeTask\<close> returns false for it, which the handler takes for a job
  with stages left: the index and its statistics are unchanged and the message is
  deleted, but a product-manager task for the unknown job is stored in the bucket and
  sent to the product-manager queue.
\<close>

theorem unknown_job_success_is_dispatched:
  "map_of (jobs ghost_reported) ''ghost'' = None \<and>
   jobs ghost_handled = jobs ghost_reported \<and>
   getStats (jobs ghost_handled) = getStats (jobs ghost_reported) \<and>
   events_queue ghost_handled = [] \<and>
   task_queues ghost_reported ProductManagerQ = [] \<and>
   task_queues ghost_handled ProductManagerQ =
     [TaskMessage ''ghost'' ''product_manager'' ''ghost/product_manager.json'' 2000] \<and>
   bucket ghost_reported ''ghost/product_manager.json'' = None \<and>
   bucket ghost_handled ''ghost/product_manager.json'' \<noteq> None"
  by code_simp

section \<open>Events that reach a terminal job\<close>

text \<open>
  Claim C2, as amended. \<^const>\<open>completeTask\<close> never looks at the status of the job it
  finds, so a terminal job is treated like any other. Processing a completion event for a
  job of the index leaves a record that is: unchanged for an \<^verbatim>\<open>in_progress\<close> event;
  failed, with the event's error and \<^verbatim>\<open>completedAt\<close> reset to the processing time, for
  a failure or error event; for a success event whose stage is already in
  \<^verbatim>\<open>completedTasks\<close>, unchanged when some required stage is missing, and otherwise
  completed with only \<^verbatim>\<open>completedAt\<close> reset; and for a success event with a new stage,
  the old record with the stage appended and nothing else changed when a required stage
  is still missing, and otherwise with the stage appended, the status completed and
  \<^verbatim>\<open>completedAt\<close> the processing time, the error kept: a failed job whose last stage
  arrives becomes completed.
\<close>

theorem terminal_job_is_not_frozen:
  assumes "map_of (jobs w) (job_id e) = Some job"
  shows "\<exists>job'. map_of (jobs (consumeEvents_message eventHandler
                    (Parseable (CompletionJson e)) now w)) (job_id e) = Some job' \<and>
           (ev_status e = Progress \<longrightarrow> job' = job) \<and>
           (ev_status e = Failure \<or> ev_status e = Error \<longrightarrow>
              job' = job\<lparr>status := Failed, error := ev_error e, completedAt := Some now\<rparr>) \<and>
           (ev_status e = Success \<and> task_type e \<in> set (completedTasks job) \<and>
            allTasksComplete job \<longrightarrow>
              job' = job\<lparr>status := Completed, completedAt := Some now\<rparr>) \<and>
           (ev_status e = Success \<and> task_type e \<in> set (completedTasks job) \<and>
            \<not> allTasksComplete job \<longrightarrow> job' = job) \<and>
           (ev_status e = Success \<and> task_type e \<notin> set (completedTasks job) \<and>
            \<not> allTasksComplete (job\<lparr>completedTasks := completedTasks job @ [task_type e]\<rparr>) \<longrightarrow>
              job' = job\<lparr>completedTasks := completedTasks job @ [task_type e]\<rparr>) \<and>
           (ev_status e = Success \<and> task_type e \<notin> set (completedTasks job) \<and>
            allTasksComplete (job\<lparr>completedTasks := completedTasks job @ [task_type e]\<rparr>) \<longrightarrow>
              job' = job\<lparr>completedTasks := completedTasks job @ [task_type e],
                         status := Completed, completedAt := Some now\<rparr>)"
  using assms
  by (cases "ev_status e")
     (auto simp: jobs_consume_completion map_of_completeTask job_after_def addTask_def)

theorem terminal_job_is_not_frozen_witness:
  "map_of (jobs (J1_after 5)) ''J1'' = Some completed_J1 \<and>
   status completed_J1 = Completed \<and> ''coder'' \<in> set (completedTasks completed_J1) \<and>
   allTasksComplete completed_J1 \<and>
   map_of (jobs (consumeEvents_message eventHandler
       (Parseable (CompletionJson (error_event ''J1'' ''coder'' ''late''))) 7000 (J1_after 5)))
     ''J1'' = Some (completed_J1\<lparr>status := Failed, error := Some ''late'',
                                  completedAt := Some 7000\<rparr>) \<and>
   map_of (jobs (consumeEvents_message eventHandler
       (Parseable (CompletionJson (success_event ''J1'' ''coder''))) 7000 (J1_after 5)))
     ''J1'' = Some (completed_J1\<lparr>status := Completed, completedAt := Some 7000\<rparr>) \<and>
   map_of (jobs J1_failed) ''J1'' = Some failed_J1 \<and>
   status failed_J1 = Failed \<and> ''drawer'' \<notin> set (completedTasks failed_J1) \<and>
   \<not> allTasksComplete (failed_J1\<lparr>completedTasks := completedTasks failed_J1 @ [''drawer'']\<rparr>) \<and>
   map_of (jobs (consumeEvents_message eventHandler
       (Parseable (CompletionJson (success_event ''J1'' ''drawer''))) 5000 J1_failed)) ''J1'' =
     Some (failed_J1\<lparr>completedTasks := completedTasks failed_J1 @ [''drawer'']\<rparr>) \<and>
   map_of (jobs J1_failed_at_coder) ''J1'' = Some failed_four_J1 \<and>
   status failed_four_J1 = Failed \<and> ''coder'' \<notin> set (completedTasks failed_four_J1) \<and>
   allTasksComplete (failed_four_J1\<lparr>completedTasks := completedTasks failed_four_J1 @ [''coder'']\<rparr>) \<and>
   map_of (jobs (consumeEvents_message eventHandler
       (Parseable (CompletionJson (success_event ''J1'' ''coder''))) 7000 J1_failed_at_coder))
     ''J1'' =
     Some (failed_four_J1\<lparr>completedTasks := completedTasks failed_four_J1 @ [''coder''],
                            status := Completed, completedAt := Some 7000\<rparr>)"
proof -
  have c: "map_of (jobs (J1_after 5)) (job_id (error_event ''J1'' ''coder'' ''late'')) =
             Some completed_J1"
    and c': "map_of (jobs (J1_after 5)) (job_id (success_event ''J1'' ''coder'')) =
             Some completed_J1"
    and f: "map_of (jobs J1_failed) (job_id (success_event ''J1'' ''drawer'')) = Some failed_J1"
    and g: "map_of (jobs J1_failed_at_coder) (job_id (success_event ''J1'' ''coder'')) =
             Some failed_four_J1"
    by code_simp+
  have facts: "status completed_J1 = Completed" "''coder'' \<in> set (completedTasks completed_J1)"
    "allTasksComplete completed_J1" "status failed_J1 = Failed"
    "''drawer'' \<notin> set (completedTasks failed_J1)"
    "\<not> allTasksComplete (failed_J1\<lparr>completedTasks := completedTasks failed_J1 @ [''drawer'']\<rparr>)"
    "status failed_four_J1 = Failed" "''coder'' \<notin> set (completedTasks failed_four_J1)"
    "allTasksComplete (failed_four_J1\<lparr>completedTasks := completedTasks failed_four_J1 @ [''coder'']\<rparr>)"
    by code_simp+
  from terminal_job_is_not_frozen [OF c, of 7000] terminal_job_is_not_frozen [OF c', of 7000]
    terminal_job_is_not_frozen [OF f, of 5000] terminal_job_is_not_frozen [OF g, of 7000]
    c c' f g facts
  show ?thesis
    by (auto simp: error_event_def success_event_def)
qed

text \<open>
  Claim C2 as stated fails. The failed job J1 gets a third completed stage from a later
  success event; the completed job J1 is turned into a failed one by a later error event,
  and a repeated success event moves its \<^verbatim>\<open>completedAt\<close>.
\<close>

theorem late_events_change_terminal_jobs_counterexample:
  "map_of (jobs J1_failed) ''J1'' = Some failed_J1 \<and> status failed_J1 = Failed \<and>
   map_of (jobs J1_failed_then_success) ''J1'' =
     Some (failed_J1\<lparr>completedTasks := [''research'', ''product_manager'', ''drawer'']\<rparr>) \<and>
   failed_J1\<lparr>completedTasks := [''research'', ''product_manager'', ''drawer'']\<rparr> \<noteq> failed_J1 \<and>
   map_of (jobs (J1_after 5)) ''J1'' = Some completed_J1 \<and>
   status completed_J1 = Completed \<and> completedAt completed_J1 = Some 6000 \<and>
   map_of (jobs J1_completed_then_error) ''J1'' =
     Some (completed_J1\<lparr>status := Failed, error := Some ''late'', completedAt := Some 7000\<rparr>) \<and>
   map_of (jobs J1_completed_then_success) ''J1'' =
     Some (completed_J1\<lparr>completedAt := Some 7000\<rparr>)"
  by code_simp


section \<open>Repeated delivery of a success event\<close>

text \<open>
  Claim C4, as amended. Let a success event name a stage of a job that is still
  incomplete once the stage is recorded. Processing the event \<open>N \<ge> 1\<close> times leaves
  the index as processing it once does, with the stage recorded once, whatever the bucket
  holds and whether or not S3 and SQS answer. But every processing dispatches the next
  stage again: when the stage is one of the four that have a successor, its artifact is
  in the bucket and S3 and SQS are available, \<open>N\<close> task messages are appended to the
  next stage's queue, one per delivery.
\<close>

theorem every_delivery_dispatches_again:
  assumes "ev_status e = Success" and "map_of (jobs w) (job_id e) = Some job"
    and "\<not> allTasksComplete (addTask (task_type e) job)"
  shows "jobs (consumeEvents_loop eventHandler
                 (map (Pair (Parseable (CompletionJson e))) (now # ts)) w) =
           jobs (consumeEvents_message eventHandler (Parseable (CompletionJson e)) now w) \<and>
         map_of (jobs (consumeEvents_loop eventHandler
                 (map (Pair (Parseable (CompletionJson e))) (now # ts)) w)) (job_id e) =
           Some (addTask (task_type e) job) \<and>
         (sqs_up w \<longrightarrow>
            jobs (consumeEvents_round eventHandler
                    (map (Pair (Parseable (CompletionJson e))) (now # ts)) w) =
              jobs (consumeEvents_message eventHandler (Parseable (CompletionJson e)) now w) \<and>
            map_of (jobs (consumeEvents_round eventHandler
                    (map (Pair (Parseable (CompletionJson e))) (now # ts)) w)) (job_id e) =
              Some (addTask (task_type e) job)) \<and>
         (next_stage (task_type e) = Some (nxt, art, q) \<and>
          bucket w (job_id e @ ''/'' @ art) = Some v \<and> s3_up w \<and> sqs_up w \<longrightarrow>
            task_queues (consumeEvents_round eventHandler
                    (map (Pair (Parseable (CompletionJson e))) (now # ts)) w) q =
              task_queues w q @
                map (TaskMessage (job_id e) nxt (payload_key (job_id e) nxt)) (now # ts))"
proof -
  have s: "jobs (consumeEvents_loop eventHandler
                 (map (Pair (Parseable (CompletionJson e))) (now # ts)) w) =
           jobs (consumeEvents_message eventHandler (Parseable (CompletionJson e)) now w) \<and>
         map_of (jobs (consumeEvents_loop eventHandler
                 (map (Pair (Parseable (CompletionJson e))) (now # ts)) w)) (job_id e) =
           Some (addTask (task_type e) job)"
    using jobs_redelivered [OF assms, of "now # ts"] jobs_redelivered [OF assms, of "[now]"]
    by (simp add: update_conv')
  have r: "consumeEvents_round eventHandler ms w = consumeEvents_loop eventHandler ms w"
    if "sqs_up w" for ms
    using that by (simp add: consumeEvents_round_def)
  have d: "task_queues (consumeEvents_round eventHandler
                    (map (Pair (Parseable (CompletionJson e))) (now # ts)) w) q =
              task_queues w q @
                map (TaskMessage (job_id e) nxt (payload_key (job_id e) nxt)) (now # ts)"
    if "next_stage (task_type e) = Some (nxt, art, q)"
      and "bucket w (job_id e @ ''/'' @ art) = Some v" and "s3_up w" and "sqs_up w"
    using redelivered_success [OF assms that, of "now # ts"] that(4)
    by (simp only: r)
  from s d r show ?thesis by metis
qed


theorem every_delivery_dispatches_again_witness:
  "ev_status (success_event ''J1'' ''research'') = Success \<and>
   map_of (jobs J1_reported) ''J1'' = Some admitted_job_J1 \<and>
   \<not> allTasksComplete (addTask ''research'' admitted_job_J1) \<and>
   next_stage ''research'' = Some (''product_manager'', ''research-result.json'', ProductManagerQ) \<and>
   bucket J1_reported ''J1/research-result.json'' = Some (JString ''insights'') \<and>
   s3_up J1_reported \<and> sqs_up J1_reported \<and>
   jobs (consumeEvents_round eventHandler
      (map (Pair (Parseable (CompletionJson (success_event ''J1'' ''research'')))) [2000, 2500])
      J1_reported) =
     jobs (consumeEvents_message eventHandler
       (Parseable (CompletionJson (success_event ''J1'' ''research''))) 2000 J1_reported) \<and>
   map_of (jobs (consumeEvents_round eventHandler
      (map (Pair (Parseable (CompletionJson (success_event ''J1'' ''research'')))) [2000, 2500])
      J1_reported)) ''J1'' = Some (addTask ''research'' admitted_job_J1) \<and>
   task_queues (consumeEvents_round eventHandler
      (map (Pair (Parseable (CompletionJson (success_event ''J1'' ''research'')))) [2000, 2500])
      J1_reported) ProductManagerQ =
     task_queues J1_reported ProductManagerQ @
       map (TaskMessage ''J1'' ''product_manager'' (payload_key ''J1'' ''product_manager''))
         [2000, 2500] \<and>
   map_of (jobs J1_result_missing) ''J1'' = Some admitted_job_J1 \<and>
   bucket J1_result_missing ''J1/research-result.json'' = None \<and>
   jobs (consumeEvents_loop eventHandler
      (map (Pair (Parseable (CompletionJson (success_event ''J1'' ''research'')))) [2000, 2500])
      J1_result_missing) =
     jobs (consumeEvents_message eventHandler
       (Parseable (CompletionJson (success_event ''J1'' ''research''))) 2000 J1_result_missing) \<and>
   map_of (jobs (consumeEvents_loop eventHandler
      (map (Pair (Parseable (CompletionJson (success_event ''J1'' ''research'')))) [2000, 2500])
      J1_result_missing)) ''J1'' = Some (addTask ''research'' admitted_job_J1)"
proof -
  let ?e = "success_event ''J1'' ''research''"
  have h: "ev_status ?e = Success"
    "map_of (jobs J1_reported) (job_id ?e) = Some admitted_job_J1"
    "\<not> allTasksComplete (addTask (task_type ?e) admitted_job_J1)"
    by code_simp+
  have m: "map_of (jobs J1_result_missing) (job_id ?e) = Some admitted_job_J1"
    by code_simp
  have k: "next_stage (task_type ?e) =
       Some (''product_manager'', ''research-result.json'', ProductManagerQ)"
    "bucket J1_reported (job_id ?e @ ''/'' @ ''research-result.json'') = Some (JString ''insights'')"
    "s3_up J1_reported" "sqs_up J1_reported"
    by code_simp+
  have ids: "job_id ?e = ''J1''" "task_type ?e = ''research''"
    by (simp_all add: success_event_def)
  have b: "bucket J1_reported ''J1/research-result.json'' = Some (JString ''insights'')"
    "bucket J1_result_missing ''J1/research-result.json'' = None"
    by code_simp+
  note r = every_delivery_dispatches_again [OF h, of 2000 "[2500]" "''product_manager''"
      "''research-result.json''" ProductManagerQ "JString ''insights''", unfolded ids]
  note r' = every_delivery_dispatches_again [OF h(1) m h(3), of 2000 "[2500]", unfolded ids]
  from r k [unfolded ids] have r1: "jobs (consumeEvents_round eventHandler
      (map (Pair (Parseable (CompletionJson ?e))) [2000, 2500]) J1_reported) =
     jobs (consumeEvents_message eventHandler (Parseable (CompletionJson ?e)) 2000 J1_reported)"
    "map_of (jobs (consumeEvents_round eventHandler
      (map (Pair (Parseable (CompletionJson ?e))) [2000, 2500]) J1_reported)) ''J1'' =
       Some (addTask ''research'' admitted_job_J1)"
    "task_queues (consumeEvents_round eventHandler
      (map (Pair (Parseable (CompletionJson ?e))) [2000, 2500]) J1_reported) ProductManagerQ =
     task_queues J1_reported ProductManagerQ @
       map (TaskMessage ''J1'' ''product_manager'' (payload_key ''J1'' ''product_manager''))
         [2000, 2500]"
    by blast+
  from r' have r2: "jobs (consumeEvents_loop eventHandler
      (map (Pair (Parseable (CompletionJson ?e))) [2000, 2500]) J1_result_missing) =
     jobs (consumeEvents_message eventHandler (Parseable (CompletionJson ?e)) 2000
       J1_result_missing)"
    "map_of (jobs (consumeEvents_loop eventHandler
      (map (Pair (Parseable (CompletionJson ?e))) [2000, 2500]) J1_result_missing)) ''J1'' =
       Some (addTask ''research'' admitted_job_J1)"
    by blast+
  from r1 r2 b h(1) k(3,4) h(2,3) [unfolded ids] k(1) [unfolded ids] m [unfolded ids]
  show ?thesis by blast
qed

text \<open>
  Claim C4 as stated fails (scenario S3 of the specification): two research successes
  for J1 leave \<^verbatim>\<open>completedTasks = [research]\<close> and two product-manager messages.
\<close>

theorem research_twice_counterexample:
  "map_of (jobs J1_research_twice) ''J1'' =
     Some \<lparr>jobId = ''J1'', status = In_Progress, completedTasks = [''research''],
           startedAt = 1000, completedAt = None, error = None\<rparr> \<and>
   task_queues J1_reported ProductManagerQ = [] \<and>
   task_queues J1_research_twice ProductManagerQ =
     [TaskMessage ''J1'' ''product_manager'' ''J1/product_manager.json'' 2000,
      TaskMessage ''J1'' ''product_manager'' ''J1/product_manager.json'' 2500] \<and>
   length (task_queues J1_research_twice ProductManagerQ) = 2"
  by code_simp

section \<open>Admitting a job id twice\<close>

text \<open>
  Claim C5, as amended. \<^const>\<open>createJob\<close> never fails: it sets the key to a fresh queued
  record whether or not the key is present. So a valid \<^verbatim>\<open>POST /api/router/jobs\<close> that
  names the id of a job already in the index is answered 201 like the first one; the
  index keeps one record for the id, at the same place, and that record is reset: in
  progress, no completed stages, started at the time of the second request.
\<close>

theorem second_admission_replaces_job:
  assumes "\<not> falsy (product spec)" and "\<not> falsy (audience spec)"
    and "spec_job_id spec = Some jid" and "jid \<noteq> []"
    and "distinct (map fst (jobs w))" and "map_of (jobs w) jid = Some old"
  shows "map_of (createJob jid now (jobs w)) jid =
           Some \<lparr>jobId = jid, status = Queued, completedTasks = [], startedAt = now,
                 completedAt = None, error = None\<rparr> \<and>
         code (fst (post_router_jobs spec uuid now w)) = 201 \<and>
         body_job_id (fst (post_router_jobs spec uuid now w)) = Some jid \<and>
         map_of (jobs (snd (post_router_jobs spec uuid now w))) jid =
           Some \<lparr>jobId = jid, status = In_Progress, completedTasks = [], startedAt = now,
                 completedAt = None, error = None\<rparr> \<and>
         map fst (jobs (snd (post_router_jobs spec uuid now w))) = map fst (jobs w) \<and>
         distinct (map fst (jobs (snd (post_router_jobs spec uuid now w))))"
  using post_router_jobs_valid [OF assms(1-4), of uuid now w] assms(5,6)
  by (simp add: createJob_def update_conv' map_fst_update_present)

theorem second_admission_replaces_job_witness:
  "\<not> falsy (product duplicate_brief) \<and> \<not> falsy (audience duplicate_brief) \<and>
   spec_job_id duplicate_brief = Some ''J1'' \<and> ''J1'' \<noteq> [] \<and>
   distinct (map fst (jobs (J1_after 1))) \<and>
   map_of (jobs (J1_after 1)) ''J1'' = Some research_done_J1 \<and>
   code (fst (post_router_jobs duplicate_brief ''uuid-1'' 9000 (J1_after 1))) = 201 \<and>
   map_of (jobs (snd (post_router_jobs duplicate_brief ''uuid-1'' 9000 (J1_after 1)))) ''J1'' =
     Some \<lparr>jobId = ''J1'', status = In_Progress, completedTasks = [], startedAt = 9000,
           completedAt = None, error = None\<rparr> \<and>
   map fst (jobs (snd (post_router_jobs duplicate_brief ''uuid-1'' 9000 (J1_after 1)))) =
     map fst (jobs (J1_after 1))"
proof -
  have h: "\<not> falsy (product duplicate_brief)" "\<not> falsy (audience duplicate_brief)"
    "spec_job_id duplicate_brief = Some ''J1''" "''J1'' \<noteq> []"
    "distinct (map fst (jobs (J1_after 1)))"
    "map_of (jobs (J1_after 1)) ''J1'' = Some research_done_J1"
    by code_simp+
  from second_admission_replaces_job [OF h, of 9000 "''uuid-1''"] h
  show ?thesis by blast
qed

text \<open>
  Claim C5 as stated fails (scenario S2 of the specification): J1 has completed research
  when a second submission with its id arrives. The answer is 201, the record of J1 is
  reset, and research is dispatched a second time.
\<close>

theorem second_post_resets_job_counterexample:
  "map_of (jobs (J1_after 1)) ''J1'' = Some research_done_J1 \<and>
   completedTasks research_done_J1 = [''research''] \<and>
   fst J1_posted_again = \<lparr>code = 201, headers = [], body_job_id = Some ''J1''\<rparr> \<and>
   jobs (snd J1_posted_again) =
     [(''J1'', \<lparr>jobId = ''J1'', status = In_Progress, completedTasks = [], startedAt = 9000,
                completedAt = None, error = None\<rparr>)] \<and>
   task_queues (snd J1_posted_again) ResearchQ =
     [TaskMessage ''J1'' ''research'' ''J1/research.json'' 1000,
      TaskMessage ''J1'' ''research'' ''J1/research.json'' 9000]"
  by code_simp

section \<open>What the events consumer deletes\<close>

text \<open>
  Claim C7, as amended. \<^verbatim>\<open>JSON.parse\<close> is inside the \<^verbatim>\<open>try\<close> block that handles one
  message, so an unparseable message is logged and left on the queue, with the world
  unchanged. A parsed message is deleted exactly when the handler given to
  \<^verbatim>\<open>consumeEvents\<close> returns without throwing (and SQS takes the deletion); when the
  handler throws, the message stays. This holds for every handler.
\<close>

theorem consumer_deletes_after_handler_returns:
  "consumeEvents_message handler (Unparseable s) now w = w \<and>
   (handler v now w = (Some e, w1) \<longrightarrow>
      consumeEvents_message handler (Parseable v) now w = w1) \<and>
   (handler v now w = (None, w1) \<and> sqs_up w1 \<longrightarrow>
      consumeEvents_message handler (Parseable v) now w =
        w1\<lparr>events_queue := remove1 (Parseable v) (events_queue w1)\<rparr>)"
  by (simp add: consumeEvents_message_def deleteMessage_def)

theorem consumer_deletes_after_handler_returns_witness:
  "rethrowing_handler (CompletionJson (success_event ''J1'' ''research'')) 2000 J1_result_missing =
     (Some (NoSuchKey ''J1/research-result.json''), J1_result_missing) \<and>
   consumeEvents_message rethrowing_handler
     (Parseable (CompletionJson (success_event ''J1'' ''research''))) 2000 J1_result_missing =
     J1_result_missing \<and>
   eventHandler (CompletionJson (success_event ''J1'' ''research'')) 2000 J1_result_missing =
     (None, onCompletionEvent (success_event ''J1'' ''research'') 2000 J1_result_missing) \<and>
   sqs_up (onCompletionEvent (success_event ''J1'' ''research'') 2000 J1_result_missing) \<and>
   consumeEvents_message eventHandler
     (Parseable (CompletionJson (success_event ''J1'' ''research''))) 2000 J1_result_missing =
     (onCompletionEvent (success_event ''J1'' ''research'') 2000 J1_result_missing)
       \<lparr>events_queue := remove1 (Parseable (CompletionJson (success_event ''J1'' ''research'')))
          (events_queue (onCompletionEvent (success_event ''J1'' ''research'') 2000
             J1_result_missing))\<rparr> \<and>
   consumeEvents_message eventHandler (Unparseable ''{not json'') 2000 poisoned = poisoned"
proof -
  let ?e = "success_event ''J1'' ''research''"
  have up: "s3_up J1_result_missing" and b: "bucket J1_result_missing ''J1/research-result.json'' = None"
    by code_simp+
  have r: "rethrowing_handler (CompletionJson ?e) 2000 J1_result_missing =
             (Some (NoSuchKey ''J1/research-result.json''), J1_result_missing)"
    using up b
    by (simp add: rethrowing_handler_def success_event_def handleTaskCompletion_stages
          executeProductManagerTask_def dispatch_from_def get_def)
  have h: "eventHandler (CompletionJson ?e) 2000 J1_result_missing =
             (None, onCompletionEvent ?e 2000 J1_result_missing)"
    by simp
  have s: "sqs_up (onCompletionEvent ?e 2000 J1_result_missing)"
    by code_simp
  from consumer_deletes_after_handler_returns [of rethrowing_handler _ 2000 J1_result_missing
      "CompletionJson ?e" "NoSuchKey ''J1/research-result.json''" J1_result_missing]
    consumer_deletes_after_handler_returns [of eventHandler "''{not json''" 2000 poisoned]
    consumer_deletes_after_handler_returns [of eventHandler _ 2000 J1_result_missing
      "CompletionJson ?e" _ "onCompletionEvent ?e 2000 J1_result_missing"]
    r h s
  show ?thesis by blast
qed

text \<open>
  Claim C7 as stated fails. The poison message is still on the queue after the consumer
  has processed it. And the handler that \<^verbatim>\<open>startEventConsumer\<close> installs catches every
  exception itself: the dispatch after J1's research report throws for the missing
  artifact, yet the report is deleted.
\<close>

theorem poison_message_stays_counterexample:
  "events_queue poisoned = [Unparseable ''{not json''] \<and>
   events_queue (consumeEvents_round eventHandler [(Unparseable ''{not json'', 2000)] poisoned) =
     [Unparseable ''{not json''] \<and>
   fst (handleTaskCompletion ''J1'' ''research'' 2000
          (J1_result_missing\<lparr>jobs := snd (completeTask (success_event ''J1'' ''research'') 2000
                                           (jobs J1_result_missing))\<rparr>)) =
     Some (NoSuchKey ''J1/research-result.json'') \<and>
   events_queue J1_result_missing = [success_body ''J1'' ''research''] \<and>
   events_queue (consumeEvents_round eventHandler [(success_body ''J1'' ''research'', 2000)]
                   J1_result_missing) = []"
  by code_simp

section \<open>The rate limit on submissions\<close>

lemma store_createJobInTaskRouter:
  "rateLimitStore (snd (createJobInTaskRouter jid spec now ws)) = rateLimitStore ws"
  by (simp add: createJobInTaskRouter_def case_prod_beta)

lemma web_POST_store:
  "rateLimitStore (snd (web_POST req now uuid sweep ws)) =
     (if fst (checkRateLimit (clientIP req) now (rateLimitStore ws)) \<and> sweep
      then cleanupRateLimitStore now (snd (checkRateLimit (clientIP req) now (rateLimitStore ws)))
      else snd (checkRateLimit (clientIP req) now (rateLimitStore ws)))"
  by (simp add: web_POST_def Let_def case_prod_beta store_createJobInTaskRouter
        split: option.splits)

lemma web_POST_code:
  "code (fst (web_POST req now uuid sweep ws)) = 429 \<longleftrightarrow>
     \<not> fst (checkRateLimit (clientIP req) now (rateLimitStore ws))"
  by (simp add: web_POST_def Let_def case_prod_beta rate_limited_def split: option.splits)

lemma web_POST_limited:
  assumes "\<not> fst (checkRateLimit (clientIP req) now (rateLimitStore ws))"
  shows "web_POST req now uuid sweep ws = (rate_limited, ws)"
proof -
  from assms have "snd (checkRateLimit (clientIP req) now (rateLimitStore ws)) = rateLimitStore ws"
    by (auto simp: checkRateLimit_def split: option.splits if_splits)
  with assms show ?thesis
    by (simp add: web_POST_def Let_def case_prod_beta)
qed

lemma map_of_filter_distinct:
  assumes "distinct (map fst st)"
  shows "map_of (filter P st) k =
           (case map_of st k of None \<Rightarrow> None | Some v \<Rightarrow> if P (k, v) then Some v else None)"
  using assms
proof (induction st)
  case Nil
  then show ?case by simp
next
  case (Cons a st)
  obtain k' v' where a: "a = (k', v')" by (cases a)
  show ?case
  proof (cases "k' = k")
    case True
    with Cons.prems a have "map_of st k = None"
      by (auto simp: map_of_eq_None_iff)
    with Cons a True show ?thesis by simp
  next
    case False
    with Cons a show ?thesis by simp
  qed
qed

text \<open>
  What the limiter remembers of a request admitted at \<open>t1\<close> from \<open>ip\<close>: either the
  store holds an instant not before \<open>t1\<close> for \<open>ip\<close>, or more than a window has passed
  since \<open>t1\<close>. Every later request keeps this.
\<close>

lemma limiter_step:
  assumes d: "distinct (map fst st)"
    and inv: "(\<exists>t'. map_of st ip = Some t' \<and> t1 \<le> t') \<or> T - t1 > RATE_LIMIT_WINDOW"
    and T: "T \<le> now" and t1: "t1 \<le> T"
    and st'_def: "st' = (if fst (checkRateLimit ip' now st) \<and> sweep
                   then cleanupRateLimitStore now (snd (checkRateLimit ip' now st))
                   else snd (checkRateLimit ip' now st))"
  shows "distinct (map fst st') \<and>
         ((\<exists>t'. map_of st' ip = Some t' \<and> t1 \<le> t') \<or> now - t1 > RATE_LIMIT_WINDOW)"
proof -
  let ?c = "snd (checkRateLimit ip' now st)"
  have dc: "distinct (map fst ?c)"
    using d by (auto simp: checkRateLimit_def distinct_update split: option.splits)
  have ic: "(\<exists>t'. map_of ?c ip = Some t' \<and> t1 \<le> t') \<or> now - t1 > RATE_LIMIT_WINDOW"
    using inv T t1 by (auto simp: checkRateLimit_def update_conv' split: option.splits)
  show ?thesis
  proof (cases "fst (checkRateLimit ip' now st) \<and> sweep")
    case False
    then have "st' = ?c" unfolding st'_def by (rule if_not_P)
    with dc ic show ?thesis by simp
  next
    case True
    then have s: "st' = cleanupRateLimitStore now ?c" unfolding st'_def by (rule if_P)
    have "distinct (map fst (cleanupRateLimitStore now ?c))"
      using dc by (simp add: cleanupRateLimitStore_def distinct_map_filter)
    moreover have "(\<exists>t'. map_of (cleanupRateLimitStore now ?c) ip = Some t' \<and> t1 \<le> t') \<or>
        now - t1 > RATE_LIMIT_WINDOW"
      using ic by (auto simp: cleanupRateLimitStore_def map_of_filter_distinct [OF dc])
    ultimately show ?thesis by (simp add: s)
  qed
qed


lemma web_POSTs_limiter:
  assumes "distinct (map fst (rateLimitStore ws))"
    and "(\<exists>t'. map_of (rateLimitStore ws) ip = Some t' \<and> t1 \<le> t') \<or> T - t1 > RATE_LIMIT_WINDOW"
    and "sorted (T # map (\<lambda>r. fst (snd r)) rs)" and "t1 \<le> T"
    and "\<forall>x \<in> set (T # map (\<lambda>r. fst (snd r)) rs). x \<le> T2"
  shows "distinct (map fst (rateLimitStore (web_POSTs rs ws))) \<and>
         ((\<exists>t'. map_of (rateLimitStore (web_POSTs rs ws)) ip = Some t' \<and> t1 \<le> t') \<or>
          T2 - t1 > RATE_LIMIT_WINDOW)"
  using assms
proof (induction rs arbitrary: ws T)
  case Nil
  from Nil.prems(5) have "T \<le> T2" by simp
  with Nil.prems(1,2) show ?case by auto
next
  case (Cons r rs)
  obtain req now uuid sweep where r: "r = (req, now, uuid, sweep)" by (cases r)
  let ?ws1 = "snd (web_POST req now uuid sweep ws)"
  from Cons.prems(3) r have T: "T \<le> now" and s: "sorted (now # map (\<lambda>r. fst (snd r)) rs)"
    by simp_all
  from Cons.prems(5) r have b: "\<forall>x \<in> set (now # map (\<lambda>r. fst (snd r)) rs). x \<le> T2"
    by simp
  from limiter_step [OF Cons.prems(1,2) T Cons.prems(4) web_POST_store]
  have i1: "distinct (map fst (rateLimitStore ?ws1))"
    "(\<exists>t'. map_of (rateLimitStore ?ws1) ip = Some t' \<and> t1 \<le> t') \<or> now - t1 > RATE_LIMIT_WINDOW"
    by blast+
  from Cons.prems(4) T have "t1 \<le> now" by simp
  from Cons.IH [OF i1 s this b] show ?case
    by (simp only: r web_POSTs.simps)
qed

lemma admitted_is_remembered:
  assumes "fst (checkRateLimit ip now st)"
  shows "map_of (if sweep then cleanupRateLimitStore now (snd (checkRateLimit ip now st))
                 else snd (checkRateLimit ip now st)) ip = Some now"
proof -
  have c: "snd (checkRateLimit ip now st) = AList.update ip now st"
    using assms by (auto simp: checkRateLimit_def split: option.splits if_splits)
  have "map_of (filter P (AList.update ip now st)) ip = Some now" if "P (ip, now)" for P
    using that by (induction st) auto
  then show ?thesis
    by (simp add: c update_conv' cleanupRateLimitStore_def RATE_LIMIT_WINDOW_def)
qed

lemma admitted_then_limited:
  assumes d: "distinct (map fst (rateLimitStore ws))"
    and first: "code (fst (web_POST req1 t1 u1 s1 ws)) \<noteq> 429"
    and ip: "clientIP req2 = clientIP req1" and pos: "0 < t1"
    and sorted: "sorted (t1 # map (\<lambda>r. fst (snd r)) mid @ [t2])"
    and ws2: "ws2 = web_POSTs mid (snd (web_POST req1 t1 u1 s1 ws))"
    and second: "fst (checkRateLimit (clientIP req2) t2 (rateLimitStore ws2))"
  shows "t2 - t1 \<ge> RATE_LIMIT_WINDOW"
proof -
  let ?ws1 = "snd (web_POST req1 t1 u1 s1 ws)"
  let ?ip = "clientIP req1"
  from first have a: "fst (checkRateLimit ?ip t1 (rateLimitStore ws))"
    by (simp add: web_POST_code)
  have d1: "distinct (map fst (rateLimitStore ?ws1))"
    using d
    by (auto simp: web_POST_store checkRateLimit_def cleanupRateLimitStore_def distinct_update
          distinct_map_filter split: option.splits)
  have "map_of (rateLimitStore ?ws1) ?ip = Some t1"
    using admitted_is_remembered [OF a, of s1] a by (simp add: web_POST_store)
  then have i1: "(\<exists>t'. map_of (rateLimitStore ?ws1) ?ip = Some t' \<and> t1 \<le> t') \<or>
      t1 - t1 > RATE_LIMIT_WINDOW"
    by simp
  from sorted have "sorted ((t1 # map (\<lambda>r. fst (snd r)) mid) @ [t2])" by simp
  then have s1: "sorted (t1 # map (\<lambda>r. fst (snd r)) mid)"
    and le: "\<forall>x \<in> set (t1 # map (\<lambda>r. fst (snd r)) mid). x \<le> t2"
    unfolding sorted_append by simp_all
  from web_POSTs_limiter [OF d1 i1 s1 order_refl le]
  have i2: "(\<exists>t'. map_of (rateLimitStore ws2) ?ip = Some t' \<and> t1 \<le> t') \<or>
      t2 - t1 > RATE_LIMIT_WINDOW"
    unfolding ws2 by blast
  from second ip have c: "fst (checkRateLimit ?ip t2 (rateLimitStore ws2))" by simp
  from i2 show ?thesis
  proof
    assume "\<exists>t'. map_of (rateLimitStore ws2) ?ip = Some t' \<and> t1 \<le> t'"
    then obtain t' where t': "map_of (rateLimitStore ws2) ?ip = Some t'" "t1 \<le> t'" by blast
    with c pos show ?thesis
      by (auto simp: checkRateLimit_def split: if_splits)
  next
    assume "t2 - t1 > RATE_LIMIT_WINDOW"
    then show ?thesis by simp
  qed
qed

text \<open>
  Claim C9, as amended. The limit is enforced by the web front-end's \<^verbatim>\<open>POST /api/jobs\<close>,
  before anything is forwarded to the router. Let a request from some address pass the
  limiter at \<open>t1 > 0\<close>, and let any requests follow, from any addresses, at
  non-decreasing instants. A request from the same address less than 60000 ms after
  \<open>t1\<close> is answered 429 with \<^verbatim>\<open>Retry-After: 60\<close> and leaves the whole state, the
  router's job index included, unchanged; so two requests of one address that both pass
  the limiter are at least 60000 ms apart.
\<close>

theorem front_end_limits_posts_per_address:
  assumes "distinct (map fst (rateLimitStore ws))"
    and "code (fst (web_POST req1 t1 u1 s1 ws)) \<noteq> 429"
    and "clientIP req2 = clientIP req1" and "0 < t1"
    and "sorted (t1 # map (\<lambda>r. fst (snd r)) mid @ [t2])"
    and "ws2 = web_POSTs mid (snd (web_POST req1 t1 u1 s1 ws))"
  shows "(t2 - t1 < RATE_LIMIT_WINDOW \<longrightarrow> web_POST req2 t2 u2 s2 ws2 = (rate_limited, ws2)) \<and>
         (code (fst (web_POST req2 t2 u2 s2 ws2)) \<noteq> 429 \<longrightarrow> t2 - t1 \<ge> RATE_LIMIT_WINDOW) \<and>
         code rate_limited = 429 \<and>
         map_of (headers rate_limited) ''Retry-After'' = Some ''60'' \<and>
         RATE_LIMIT_WINDOW = 60000"
proof -
  have a: "t2 - t1 \<ge> RATE_LIMIT_WINDOW"
    if "fst (checkRateLimit (clientIP req2) t2 (rateLimitStore ws2))"
    using admitted_then_limited [OF assms that] .
  have "web_POST req2 t2 u2 s2 ws2 = (rate_limited, ws2)" if "t2 - t1 < RATE_LIMIT_WINDOW"
  proof (rule web_POST_limited)
    show "\<not> fst (checkRateLimit (clientIP req2) t2 (rateLimitStore ws2))"
      using a that by auto
  qed
  moreover have "t2 - t1 \<ge> RATE_LIMIT_WINDOW"
    if "code (fst (web_POST req2 t2 u2 s2 ws2)) \<noteq> 429"
    using a that by (simp add: web_POST_code)
  ultimately show ?thesis
    by (simp add: rate_limited_def RATE_LIMIT_WINDOW_def)
qed

theorem front_end_limits_posts_per_address_witness:
  "distinct (map fst (rateLimitStore web_fresh)) \<and>
   code (fst (web_POST (post_from ''10.0.0.1'') 1000 ''uuid-a'' False web_fresh)) = 201 \<and>
   clientIP (post_from ''10.0.0.1'') = ''10.0.0.1'' \<and>
   sorted [1000, 5000, 31000 :: int] \<and>
   31000 - 1000 < RATE_LIMIT_WINDOW \<and>
   web_POST (post_from ''10.0.0.1'') 31000 ''uuid-c'' False web_after_two =
     (rate_limited, web_after_two) \<and>
   code rate_limited = 429 \<and>
   map_of (headers rate_limited) ''Retry-After'' = Some ''60''"
proof -
  have h1: "distinct (map fst (rateLimitStore web_fresh))" by code_simp
  have c: "code (fst (web_POST (post_from ''10.0.0.1'') 1000 ''uuid-a'' False web_fresh)) = 201"
    by code_simp
  then have h2: "code (fst (web_POST (post_from ''10.0.0.1'') 1000 ''uuid-a'' False web_fresh)) \<noteq> 429"
    by simp
  have h3: "clientIP (post_from ''10.0.0.1'') = clientIP (post_from ''10.0.0.1'')" by simp
  have h4: "(0::int) < 1000" by simp
  have h5: "sorted (1000 # map (\<lambda>r. fst (snd r))
              [(post_from ''10.0.0.2'', 5000, ''uuid-b'', True)] @ [31000 :: int])"
    by simp
  have w: "(31000::int) - 1000 < RATE_LIMIT_WINDOW" by (simp add: RATE_LIMIT_WINDOW_def)
  from front_end_limits_posts_per_address [OF h1 h2 h3 h4 h5 web_after_two_def,
      of "''uuid-c''" False] w h1 c
  show ?thesis by (simp add: post_from_def)
qed

text \<open>
  Claim C9 as stated fails for the router's own endpoint: the handler of
  \<^verbatim>\<open>POST /api/router/jobs\<close> never looks at the sender and keeps no record of earlier
  requests, so two submissions at the same instant are both answered 201 and both change
  the index.
\<close>

theorem router_has_no_rate_limit_counterexample:
  "fst (post_router_jobs anonymous_brief ''uuid-a'' 1000 initial_world) =
     \<lparr>code = 201, headers = [], body_job_id = Some ''uuid-a''\<rparr> \<and>
   fst router_posted_twice = \<lparr>code = 201, headers = [], body_job_id = Some ''uuid-b''\<rparr> \<and>
   map fst (jobs (snd router_posted_twice)) = [''uuid-a'', ''uuid-b''] \<and>
   jobs (snd router_posted_twice) \<noteq>
     jobs (snd (post_router_jobs anonymous_brief ''uuid-a'' 1000 initial_world))"
  by code_simp

end
